theory Spec2Isabelle
  imports Main
begin

section \<open>C++ library functions used by the activity\<close>

text \<open>
  The device code (\<^verbatim>\<open>src/activities/network/CalibreWirelessActivity.cpp\<close>) works on
  \<^verbatim>\<open>std::string\<close> values, modelled as \<^typ>\<open>string\<close> (a list of bytes), and on
  \<^verbatim>\<open>size_t\<close> counters, modelled as \<^typ>\<open>nat\<close>. Every subtraction the code performs on
  a \<^verbatim>\<open>size_t\<close> is guarded so that it cannot wrap, and every value stored is bounded by
  \<open>ULONG_MAX\<close>, so the natural numbers agree with the machine arithmetic.

  \<^verbatim>\<open>std::stoi\<close> and \<^verbatim>\<open>std::stoul\<close> throw; nothing in the file catches. A thrown
  exception is the value \<open>Inl e\<close> of the result. \<^verbatim>\<open>int\<close>, \<^verbatim>\<open>unsigned long\<close> and
  \<^verbatim>\<open>size_t\<close> have 32 bits on the target (an ESP32).

  Logging (\<^verbatim>\<open>Serial.printf\<close>) and watchdog resets (\<^verbatim>\<open>esp_task_wdt_reset\<close>) do not
  touch the state of the activity and are left out.
\<close>

datatype error = invalid_argument | out_of_range

definition INT_MAX :: int where
  "INT_MAX = 2147483647"

definition INT_MIN :: int where
  "INT_MIN = - 2147483648"

definition ULONG_MAX :: nat where
  "ULONG_MAX = 4294967295"

definition is_digit :: "char \<Rightarrow> bool" where
  "is_digit c = (48 \<le> (of_char c :: nat) \<and> (of_char c :: nat) \<le> 57)"

definition isspace :: "char \<Rightarrow> bool" where
  "isspace c = (c = CHR '' '' \<or> (9 \<le> (of_char c :: nat) \<and> (of_char c :: nat) \<le> 13))"

definition digit_value :: "char \<Rightarrow> nat" where
  "digit_value c = of_char c - 48"

definition decimal :: "string \<Rightarrow> nat" where
  "decimal ds = foldl (\<lambda>acc c. 10 * acc + digit_value c) 0 ds"

text \<open>\<^verbatim>\<open>std::to_string\<close> and \<^verbatim>\<open>%llu\<close> on an unsigned value.\<close>

fun to_string :: "nat \<Rightarrow> string" where
  "to_string n =
     (if n < 10 then [''0123456789'' ! n]
      else to_string (n div 10) @ [''0123456789'' ! (n mod 10)])"

declare to_string.simps [simp del]

fun index_of :: "char \<Rightarrow> string \<Rightarrow> nat option" where
  "index_of c [] = None"
| "index_of c (x # xs) = (if x = c then Some 0 else map_option Suc (index_of c xs))"

text \<open>\<^verbatim>\<open>s.find(c, pos)\<close>; \<open>None\<close> is \<^verbatim>\<open>npos\<close>.\<close>

definition find_char :: "string \<Rightarrow> char \<Rightarrow> nat \<Rightarrow> nat option" where
  "find_char s c pos =
     (if pos < length s then map_option (\<lambda>k. pos + k) (index_of c (drop pos s)) else None)"

text \<open>\<^verbatim>\<open>s.rfind(c)\<close>.\<close>

definition rfind_char :: "string \<Rightarrow> char \<Rightarrow> nat option" where
  "rfind_char s c = map_option (\<lambda>k. length s - 1 - k) (index_of c (rev s))"

fun index_of_str :: "string \<Rightarrow> string \<Rightarrow> nat option" where
  "index_of_str pat [] = (if pat = [] then Some 0 else None)"
| "index_of_str pat (x # xs) =
     (if take (length pat) (x # xs) = pat then Some 0
      else map_option Suc (index_of_str pat xs))"

text \<open>\<^verbatim>\<open>s.find(pat)\<close>.\<close>

definition find_str :: "string \<Rightarrow> string \<Rightarrow> nat option" where
  "find_str s pat = index_of_str pat s"

text \<open>
  \<^verbatim>\<open>s.substr(pos, n)\<close> and \<^verbatim>\<open>s.substr(pos)\<close>. They throw when \<open>pos > size\<close>; at every
  call of the file \<open>pos\<close> is an index found in \<open>s\<close> (plus one), so that branch is never
  taken.
\<close>

definition substr :: "string \<Rightarrow> nat \<Rightarrow> nat \<Rightarrow> string" where
  "substr s pos n = take n (drop pos s)"

definition substr_from :: "string \<Rightarrow> nat \<Rightarrow> string" where
  "substr_from s pos = drop pos s"

text \<open>
  The common front end of \<^verbatim>\<open>strtol\<close> and \<^verbatim>\<open>strtoul\<close> in base 10: white space, an
  optional sign, the digits, and what is left.
\<close>

definition scan_number :: "string \<Rightarrow> bool \<times> string \<times> string" where
  "scan_number str =
     (let s1 = dropWhile isspace str;
          s2 = (if take 1 s1 = ''-'' \<or> take 1 s1 = ''+'' then drop 1 s1 else s1)
      in (take 1 s1 = ''-'', takeWhile is_digit s2, dropWhile is_digit s2))"

definition stoi :: "string \<Rightarrow> error + int" where
  "stoi str =
     (case scan_number str of
        (neg, ds, rest) \<Rightarrow>
          if ds = [] then Inl invalid_argument
          else
            let v = (if neg then - int (decimal ds) else int (decimal ds))
            in if v < INT_MIN \<or> INT_MAX < v then Inl out_of_range else Inr v)"

definition stoul :: "string \<Rightarrow> error + nat" where
  "stoul str =
     (case scan_number str of
        (neg, ds, rest) \<Rightarrow>
          if ds = [] then Inl invalid_argument
          else if ULONG_MAX < decimal ds then Inl out_of_range
          else Inr (if neg then (ULONG_MAX + 1 - decimal ds) mod (ULONG_MAX + 1)
                    else decimal ds))"

text \<open>\<^verbatim>\<open>strtoul(s, &endPtr, 10)\<close>: the value (saturated) and the text at \<^verbatim>\<open>endPtr\<close>.\<close>

definition strtoul :: "string \<Rightarrow> nat \<times> string" where
  "strtoul str =
     (case scan_number str of
        (neg, ds, rest) \<Rightarrow>
          if ds = [] then (0, str)
          else if ULONG_MAX < decimal ds then (ULONG_MAX, rest)
          else (if neg then (ULONG_MAX + 1 - decimal ds) mod (ULONG_MAX + 1)
                else decimal ds, rest))"

definition uint16_of_int :: "int \<Rightarrow> nat" where
  "uint16_of_int v = nat (v mod 65536)"

section \<open>Data model\<close>

datatype WirelessState =
  DISCOVERING | CONNECTING | WAITING | RECEIVING | COMPLETE | DISCONNECTED | ERROR

text \<open>
  \<^verbatim>\<open>enum OpCode : uint8_t\<close>. \<^verbatim>\<open>handleTcpClient\<close> casts any integer of \<open>0..19\<close> to it,
  so an opcode is a number and the enumerators are constants.
\<close>

type_synonym OpCode = nat

definition OK :: OpCode where "OK = 0"
definition SET_CALIBRE_DEVICE_INFO :: OpCode where "SET_CALIBRE_DEVICE_INFO = 1"
definition SET_CALIBRE_DEVICE_NAME :: OpCode where "SET_CALIBRE_DEVICE_NAME = 2"
definition GET_DEVICE_INFORMATION :: OpCode where "GET_DEVICE_INFORMATION = 3"
definition TOTAL_SPACE :: OpCode where "TOTAL_SPACE = 4"
definition FREE_SPACE :: OpCode where "FREE_SPACE = 5"
definition GET_BOOK_COUNT :: OpCode where "GET_BOOK_COUNT = 6"
definition SEND_BOOKLISTS :: OpCode where "SEND_BOOKLISTS = 7"
definition SEND_BOOK :: OpCode where "SEND_BOOK = 8"
definition GET_INITIALIZATION_INFO :: OpCode where "GET_INITIALIZATION_INFO = 9"
definition BOOK_DONE :: OpCode where "BOOK_DONE = 11"
definition NOOP :: OpCode where "NOOP = 12"
definition DELETE_BOOK :: OpCode where "DELETE_BOOK = 13"
definition GET_BOOK_FILE_SEGMENT :: OpCode where "GET_BOOK_FILE_SEGMENT = 14"
definition GET_BOOK_METADATA :: OpCode where "GET_BOOK_METADATA = 15"
definition SEND_BOOK_METADATA :: OpCode where "SEND_BOOK_METADATA = 16"
definition DISPLAY_MESSAGE :: OpCode where "DISPLAY_MESSAGE = 17"
definition CALIBRE_BUSY :: OpCode where "CALIBRE_BUSY = 18"
definition SET_LIBRARY_INFO :: OpCode where "SET_LIBRARY_INFO = 19"
definition OpCode_ERROR :: OpCode where "OpCode_ERROR = 20"

text \<open>
  The storage target \<^verbatim>\<open>FsFile\<close>: whether the handle is open, the bytes the card has
  accepted, and how many more it will accept. A write of \<open>n\<close> bytes stores
  \<open>min n room\<close> of them and returns that count, which is how a full card makes a
  write short.
\<close>

record FsFile =
  is_open :: bool
  written :: string
  room :: nat

definition closed_file :: FsFile where
  "closed_file = \<lparr>is_open = False, written = [], room = 0\<rparr>"

definition file_write :: "FsFile \<Rightarrow> string \<Rightarrow> nat \<times> FsFile" where
  "file_write f buf =
     (let k = min (length buf) (room f)
      in (k, f\<lparr>written := written f @ take k buf, room := room f - k\<rparr>))"

text \<open>
  The TCP socket \<^verbatim>\<open>WiFiClient\<close>: the bytes that have arrived and were not read yet,
  and the frames handed to \<^verbatim>\<open>write\<close>. \<^verbatim>\<open>available()\<close> is the number of arrived bytes;
  \<^verbatim>\<open>read(buf, n)\<close> delivers the first \<open>min n available\<close> of them and returns their
  count.
\<close>

record WiFiClient =
  connected :: bool
  rx :: string
  tx :: "string list"

definition tcp_available :: "WiFiClient \<Rightarrow> nat" where
  "tcp_available c = length (rx c)"

definition tcp_read :: "WiFiClient \<Rightarrow> nat \<Rightarrow> string \<times> WiFiClient" where
  "tcp_read c n = (take n (rx c), c\<lparr>rx := drop n (rx c)\<rparr>)"

text \<open>
  The card manager \<^verbatim>\<open>SdMan\<close>: which paths can be opened for writing, how many bytes
  a newly opened file will accept, and the largest size \<^verbatim>\<open>preAllocate\<close> grants.
\<close>

record SDCardManager =
  can_open :: "string \<Rightarrow> bool"
  free_bytes :: nat
  prealloc_limit :: nat

definition openFileForWrite :: "SDCardManager \<Rightarrow> string \<Rightarrow> FsFile option" where
  "openFileForWrite sd path =
     (if can_open sd path then Some \<lparr>is_open = True, written = [], room = free_bytes sd\<rparr>
      else None)"

datatype task = CalDisplayTask | CalNetworkTask

datatype mutex = renderingMutex | stateMutex

text \<open>The calls to the storage, the network stack and the scheduler, in program order.\<close>

datatype event =
    UdpBegin nat
  | UdpBroadcast nat string
  | UdpStop
  | TcpConnect string nat
  | TcpStop
  | FileWrite nat nat
  | FileFlush
  | FileClose
  | TaskCreate task
  | TaskDelete task
  | TaskDelay nat
  | WiFiDisconnect
  | WiFiModeOff
  | MutexTake mutex
  | MutexGive mutex
  | MutexDelete mutex

text \<open>
  The members of \<^verbatim>\<open>CalibreWirelessActivity\<close> and the file's static variables.
  \<open>writeBuffer\<close> holds the first \<^verbatim>\<open>writeBufferPos\<close> bytes of the 4 KiB array (no other
  byte of it is ever read), so \<^verbatim>\<open>writeBufferPos\<close> is its length. \<^verbatim>\<open>currentWriteFile\<close>
  is either \<^verbatim>\<open>nullptr\<close> or \<^verbatim>\<open>&currentFile\<close>: \<open>True\<close> stands for the latter.
\<close>

record activity =
  state :: WirelessState
  statusMessage :: string
  errorMessage :: string
  calibreHost :: string
  calibrePort :: nat
  calibreAltPort :: nat
  calibreHostname :: string
  currentFilename :: string
  currentFileSize :: nat
  bytesReceived :: nat
  inBinaryMode :: bool
  binaryBytesRemaining :: nat
  recvBuffer :: string
  updateRequired :: bool
  shouldStop :: bool
  networkTaskHandle :: bool
  displayTaskHandle :: bool
  renderingMutexHandle :: bool
  stateMutexHandle :: bool
  writeBuffer :: string
  currentWriteFile :: bool
  currentFile :: FsFile
  tcp :: WiFiClient
  SdMan :: SDCardManager
  trace :: "event list"

definition writeBufferPos :: "activity \<Rightarrow> nat" where
  "writeBufferPos s = length (writeBuffer s)"

definition WRITE_BUFFER_SIZE :: nat where
  "WRITE_BUFFER_SIZE = 4096"

definition log_event :: "event \<Rightarrow> activity \<Rightarrow> activity" where
  "log_event e s = s\<lparr>trace := trace s @ [e]\<rparr>"

text \<open>
  \<^verbatim>\<open>setState\<close> takes \<^verbatim>\<open>stateMutex\<close>, assigns the state, gives the mutex back and
  raises \<^verbatim>\<open>updateRequired\<close>.
\<close>

definition setState :: "WirelessState \<Rightarrow> activity \<Rightarrow> activity" where
  "setState newState s =
     s\<lparr>state := newState, updateRequired := True,
       trace := trace s @ [MutexTake stateMutex, MutexGive stateMutex]\<rparr>"

definition setStatus :: "string \<Rightarrow> activity \<Rightarrow> activity" where
  "setStatus message s = s\<lparr>statusMessage := message, updateRequired := True\<rparr>"

definition setError :: "string \<Rightarrow> activity \<Rightarrow> activity" where
  "setError message s = setState ERROR (s\<lparr>errorMessage := message\<rparr>)"

section \<open>Buffered writes to the card\<close>

definition flushWriteBuffer :: "activity \<Rightarrow> bool \<times> activity" where
  "flushWriteBuffer s =
     (if writeBufferPos s > 0 \<and> currentWriteFile s \<and> is_open (currentFile s) then
        (case file_write (currentFile s) (writeBuffer s) of
           (n, f) \<Rightarrow>
             (n = writeBufferPos s,
              s\<lparr>currentFile := f, writeBuffer := [],
                trace := trace s @ [FileWrite (writeBufferPos s) n]\<rparr>))
      else (True, s))"

text \<open>
  The loop of \<^verbatim>\<open>bufferedWrite\<close> makes no progress when the buffer is full and the
  flush finds no open file (it returns \<^verbatim>\<open>true\<close> without emptying the buffer): the
  C++ then spins forever. Not returning is the value \<open>None\<close>.
\<close>

partial_function (option) bufferedWrite :: "string \<Rightarrow> activity \<Rightarrow> (bool \<times> activity) option" where
  "bufferedWrite data s =
     (if length data > 0 then
        (let space = WRITE_BUFFER_SIZE - writeBufferPos s;
             toCopy = min space (length data);
             s1 = s\<lparr>writeBuffer := writeBuffer s @ take toCopy data\<rparr>
         in if writeBufferPos s1 \<ge> WRITE_BUFFER_SIZE then
              (case flushWriteBuffer s1 of
                 (ok, s2) \<Rightarrow> if ok then bufferedWrite (drop toCopy data) s2
                            else Some (False, s2))
            else bufferedWrite (drop toCopy data) s1)
      else Some (True, s))"

section \<open>Framing: reading one length-prefixed message\<close>

text \<open>
  \<^verbatim>\<open>sendJsonResponse\<close>: the frame is the decimal length of \<^verbatim>\<open>[opcode,data]\<close>
  followed by that text.
\<close>

definition sendJsonResponse :: "OpCode \<Rightarrow> string \<Rightarrow> activity \<Rightarrow> activity" where
  "sendJsonResponse opcode data s =
     (let json = ''['' @ to_string opcode @ '','' @ data @ '']''
      in s\<lparr>tcp := (tcp s)\<lparr>tx := tx (tcp s) @ [to_string (length json) @ json]\<rparr>\<rparr>)"

text \<open>The read loop of \<^verbatim>\<open>readJsonMessage\<close>, in chunks of at most 1024 bytes.\<close>

function read_chunks :: "nat \<Rightarrow> activity \<Rightarrow> activity" where
  "read_chunks available s =
     (if available > 0 then
        (let toRead = min available 1024;
             got = tcp_read (tcp s) toRead;
             bytesRead = length (fst got)
         in if bytesRead > 0 then
              read_chunks (available - bytesRead)
                (s\<lparr>recvBuffer := recvBuffer s @ fst got, tcp := snd got\<rparr>)
            else s)
      else s)"
  by pat_completeness auto
termination
  by (relation "measure fst") auto

declare read_chunks.simps [simp del]

text \<open>
  \<^verbatim>\<open>readJsonMessage\<close> returns \<open>Some message\<close> for \<^verbatim>\<open>true\<close> (with the out parameter)
  and \<open>None\<close> for \<^verbatim>\<open>false\<close>.
\<close>

declare bufferedWrite.simps [code]

definition readJsonMessage :: "activity \<Rightarrow> error + (string option \<times> activity)" where
  "readJsonMessage s0 =
     (let available = tcp_available (tcp s0) in
      if available > 0 \<and> length (recvBuffer s0) > 100000 then
        Inr (None, s0\<lparr>recvBuffer := []\<rparr>)
      else
        let s = (if available > 0 then read_chunks available s0 else s0) in
        if recvBuffer s = [] then Inr (None, s)
        else
          (case find_char (recvBuffer s) CHR ''['' 0 of
             None \<Rightarrow>
               Inr (None, if length (recvBuffer s) > 1000 then s\<lparr>recvBuffer := []\<rparr> else s)
           | Some bracketPos \<Rightarrow>
               if bracketPos > 0 \<and> bracketPos \<le> 12
                  \<and> list_all is_digit (take bracketPos (recvBuffer s)) then
                 (case stoul (substr (recvBuffer s) 0 bracketPos) of
                    Inl e \<Rightarrow> Inl e
                  | Inr msgLen \<Rightarrow>
                      if msgLen > 1000000 then
                        Inr (None, s\<lparr>recvBuffer := substr_from (recvBuffer s) (bracketPos + 1)\<rparr>)
                      else
                        let totalNeeded = bracketPos + msgLen in
                        if length (recvBuffer s) < totalNeeded then Inr (None, s)
                        else
                          Inr (Some (substr (recvBuffer s) bracketPos msgLen),
                               s\<lparr>recvBuffer :=
                                   (if length (recvBuffer s) > totalNeeded
                                    then substr_from (recvBuffer s) totalNeeded else [])\<rparr>))
               else
                 Inr (None,
                      if bracketPos > 0
                      then s\<lparr>recvBuffer := substr_from (recvBuffer s) bracketPos\<rparr> else s)))"

section \<open>What the build and the hardware provide\<close>

text \<open>
  \<^verbatim>\<open>StringUtils::sanitizeFilename\<close>, \<^verbatim>\<open>StringUtils::checkFileExtension\<close>, the macro
  \<^verbatim>\<open>CROSSPOINT_VERSION\<close> and the MAC address come from outside the file; the handlers
  take them as parameters.
\<close>

record deps =
  sanitizeFilename :: "string \<Rightarrow> string"
  checkFileExtension :: "string \<Rightarrow> string \<Rightarrow> bool"
  CROSSPOINT_VERSION :: string
  macAddress :: "nat \<Rightarrow> nat"

section \<open>Start and teardown\<close>

definition LOCAL_UDP_PORT :: nat where
  "LOCAL_UDP_PORT = 8134"

definition UDP_PORTS :: "nat list" where
  "UDP_PORTS = [54982, 48123, 39001, 44044, 59678]"

text \<open>The object as its member initialisers and the static initialisers leave it.\<close>

definition constructed :: "SDCardManager \<Rightarrow> activity" where
  "constructed sd =
     \<lparr>state = DISCOVERING, statusMessage = [], errorMessage = [], calibreHost = [],
      calibrePort = 0, calibreAltPort = 0, calibreHostname = [], currentFilename = [],
      currentFileSize = 0, bytesReceived = 0, inBinaryMode = False, binaryBytesRemaining = 0,
      recvBuffer = [], updateRequired = False, shouldStop = False, networkTaskHandle = False,
      displayTaskHandle = False, renderingMutexHandle = False, stateMutexHandle = False,
      writeBuffer = [], currentWriteFile = False, currentFile = closed_file,
      tcp = \<lparr>connected = False, rx = [], tx = []\<rparr>, SdMan = sd, trace = []\<rparr>"

definition onEnter :: "activity \<Rightarrow> activity" where
  "onEnter s =
     s\<lparr>renderingMutexHandle := True, stateMutexHandle := True,
       state := DISCOVERING, statusMessage := ''Discovering Calibre...'',
       errorMessage := [], calibreHostname := [], calibreHost := [],
       calibrePort := 0, calibreAltPort := 0, currentFilename := [],
       currentFileSize := 0, bytesReceived := 0, inBinaryMode := False,
       recvBuffer := [], shouldStop := False, updateRequired := True,
       displayTaskHandle := True, networkTaskHandle := True,
       trace := trace s @ [UdpBegin LOCAL_UDP_PORT, TaskCreate CalDisplayTask,
                           TaskCreate CalNetworkTask]\<rparr>"

definition currentFile_flush :: "activity \<Rightarrow> activity" where
  "currentFile_flush s = log_event FileFlush s"

definition currentFile_close :: "activity \<Rightarrow> activity" where
  "currentFile_close s =
     log_event FileClose (s\<lparr>currentFile := (currentFile s)\<lparr>is_open := False\<rparr>\<rparr>)"

definition tcp_stop :: "activity \<Rightarrow> activity" where
  "tcp_stop s = log_event TcpStop (s\<lparr>tcp := (tcp s)\<lparr>connected := False, rx := []\<rparr>\<rparr>)"

text \<open>
  What the scheduler answers during \<^verbatim>\<open>onExit\<close>: whether each task has deleted
  itself within the grace period (\<^verbatim>\<open>eTaskGetState(t) == eDeleted\<close>), and whether
  \<^verbatim>\<open>xSemaphoreTake(renderingMutex, 500 ms)\<close> succeeds.
\<close>

record teardown =
  network_task_deleted :: bool
  display_task_deleted :: bool
  rendering_mutex_taken :: bool

text \<open>
  \<^verbatim>\<open>onExit\<close>, as the calling task runs it, in the four blocks its comments mark. The
  two workers run concurrently with it in the program; their interleaving is not part
  of this model.
\<close>

text \<open>Lines 114--120: close the network connections first.\<close>

definition close_network :: "activity \<Rightarrow> activity" where
  "close_network s =
     (let s1 = log_event UdpStop s
      in if connected (tcp s1) then tcp_stop s1 else s1)"

text \<open>Lines 122--129: flush the write buffer and close any open file.\<close>

definition release_transfer_file :: "activity \<Rightarrow> activity" where
  "release_transfer_file s =
     (let s1 = snd (flushWriteBuffer s);
          s2 = s1\<lparr>currentWriteFile := False\<rparr>
      in if is_open (currentFile s2) then currentFile_close (currentFile_flush s2) else s2)"

text \<open>Lines 135--175: wait, then delete the tasks that have not deleted themselves.\<close>

definition terminate_tasks :: "teardown \<Rightarrow> activity \<Rightarrow> activity" where
  "terminate_tasks env s =
     (let s1 = log_event (TaskDelay 200) s;
          netTask = networkTaskHandle s1;
          dispTask = displayTaskHandle s1;
          s2 = s1\<lparr>networkTaskHandle := False, displayTaskHandle := False\<rparr>;
          s3 = (if netTask \<and> \<not> network_task_deleted env
                then log_event (TaskDelete CalNetworkTask) s2 else s2);
          s4 = log_event (TaskDelay 50) s3;
          s5 = log_event (TaskDelay 30) (log_event WiFiDisconnect s4);
          s6 = log_event (TaskDelay 30) (log_event WiFiModeOff s5)
      in if dispTask \<and> \<not> display_task_deleted env then
           (if rendering_mutex_taken env then
              log_event (MutexGive renderingMutex)
                (log_event (TaskDelete CalDisplayTask)
                   (log_event (MutexTake renderingMutex) s6))
            else s6)
         else s6)"

text \<open>Lines 178--187: delete the mutexes.\<close>

definition delete_mutexes :: "activity \<Rightarrow> activity" where
  "delete_mutexes s =
     (let s1 = (if renderingMutexHandle s
                then log_event (MutexDelete renderingMutex) (s\<lparr>renderingMutexHandle := False\<rparr>)
                else s)
      in if stateMutexHandle s1
         then log_event (MutexDelete stateMutex) (s1\<lparr>stateMutexHandle := False\<rparr>)
         else s1)"

definition onExit :: "teardown \<Rightarrow> activity \<Rightarrow> activity" where
  "onExit env s =
     delete_mutexes
       (terminate_tasks env
          (release_transfer_file
             (close_network (s\<lparr>shouldStop := True\<rparr>))))"

section \<open>Discovery\<close>

text \<open>
  The answer to the broadcast, if one arrived: the datagram's bytes and the sender's
  address as \<^verbatim>\<open>udp.remoteIP().toString()\<close> prints it; and whether a TCP connection to
  a host and port succeeds.
\<close>

record udp_packet =
  payload :: string
  remoteIP :: string

record network =
  reply :: "udp_packet option"
  connect_ok :: "string \<Rightarrow> nat \<Rightarrow> bool"

text \<open>
  Lines 286--318: the ports after the semicolon and the host name. \<^verbatim>\<open>std::stoi\<close>
  throws on a port text without a leading number.
\<close>

definition parse_alt_port :: "string \<Rightarrow> nat \<Rightarrow> activity \<Rightarrow> error + activity" where
  "parse_alt_port response commaPos s =
     (let altPortStr = substr_from response (commaPos + 1);
          altEnd = length (takeWhile is_digit altPortStr)
      in if altEnd > 0 then
           (case stoi (substr altPortStr 0 altEnd) of
              Inl e \<Rightarrow> Inl e
            | Inr v \<Rightarrow> Inr (s\<lparr>calibreAltPort := uint16_of_int v\<rparr>))
         else Inr s)"

definition parse_main_port :: "string \<Rightarrow> activity \<Rightarrow> error + activity" where
  "parse_main_port portStr0 s =
     (let portStr = dropWhile (\<lambda>c. c = CHR '' '' \<or> c = CHR 0x09) portStr0
      in if portStr \<noteq> [] then
           (case stoi portStr of
              Inl e \<Rightarrow> Inl e
            | Inr v \<Rightarrow> Inr (s\<lparr>calibrePort := uint16_of_int v\<rparr>))
         else Inr s)"

definition parse_hostname :: "string \<Rightarrow> activity \<Rightarrow> activity" where
  "parse_hostname response s =
     (case (find_str response ''(on '', find_char response CHR '')'' 0) of
        (Some onPos, Some closePos) \<Rightarrow>
          if closePos > onPos + 4
          then s\<lparr>calibreHostname := substr response (onPos + 4) (closePos - onPos - 4)\<rparr>
          else s
      | _ \<Rightarrow> s)"

definition parse_discovery :: "string \<Rightarrow> activity \<Rightarrow> error + activity" where
  "parse_discovery response s =
     (case find_char response CHR '';'' 0 of
        None \<Rightarrow> Inr s
      | Some semiPos \<Rightarrow>
          (case find_char response CHR '','' semiPos of
             None \<Rightarrow>
               (case parse_main_port (substr_from response (semiPos + 1)) s of
                  Inl e \<Rightarrow> Inl e
                | Inr s2 \<Rightarrow> Inr (parse_hostname response s2))
           | Some commaPos \<Rightarrow>
               if commaPos > semiPos then
                 (case parse_alt_port response commaPos s of
                    Inl e \<Rightarrow> Inl e
                  | Inr s1 \<Rightarrow>
                      (case parse_main_port
                              (substr response (semiPos + 1) (commaPos - semiPos - 1)) s1 of
                         Inl e \<Rightarrow> Inl e
                       | Inr s2 \<Rightarrow> Inr (parse_hostname response s2)))
               else
                 (case parse_main_port (substr_from response (semiPos + 1)) s of
                    Inl e \<Rightarrow> Inl e
                  | Inr s2 \<Rightarrow> Inr (parse_hostname response s2))))"

text \<open>Lines 326--359: connect to the main port, then to the alternative one.\<close>

definition connect_to_calibre :: "network \<Rightarrow> activity \<Rightarrow> activity" where
  "connect_to_calibre net s =
     (if calibrePort s > 0 then
        (let s1 = setStatus (''Connecting to '' @ calibreHostname s @ ''...'')
                    (setState CONNECTING s);
             s2 = log_event (TcpConnect (calibreHost s1) (calibrePort s1))
                    (log_event (TaskDelay 100) s1);
             main = connect_ok net (calibreHost s2) (calibrePort s2);
             tryAlt = (\<not> main \<and> calibreAltPort s2 > 0);
             s3 = (if tryAlt
                   then log_event (TcpConnect (calibreHost s2) (calibreAltPort s2))
                          (log_event (TaskDelay 200) s2)
                   else s2);
             isConnected =
               (main \<or> (tryAlt \<and> connect_ok net (calibreHost s2) (calibreAltPort s2)))
         in if isConnected then
              setStatus (''Connected to '' @ calibreHostname s3 @ ''\<newline>Waiting for commands...'')
                (setState WAITING (s3\<lparr>tcp := (tcp s3)\<lparr>connected := True\<rparr>\<rparr>))
            else
              (setStatus ''Discovering Calibre...\<newline>(Connection failed, retrying)''
                 (setState DISCOVERING s3))\<lparr>calibrePort := 0, calibreAltPort := 0\<rparr>)
      else s)"

text \<open>
  \<^verbatim>\<open>listenForDiscovery\<close>. The datagram is read into a 256-byte array (at most 255
  bytes) and turned into a \<^verbatim>\<open>std::string\<close> as a C string, which ends at its first
  zero byte.
\<close>

definition listenForDiscovery :: "network \<Rightarrow> activity \<Rightarrow> error + activity" where
  "listenForDiscovery net s0 =
     (if shouldStop s0 then Inr s0
      else
        let s1 = s0\<lparr>trace := trace s0 @ map (\<lambda>port. UdpBroadcast port ''hello'') UDP_PORTS
                                        @ replicate 10 (TaskDelay 50)\<rparr>
        in (case reply net of
              None \<Rightarrow> Inr s1
            | Some p \<Rightarrow>
                let len = min (length (payload p)) 255 in
                if len > 0 then
                  (case parse_discovery
                          (takeWhile (\<lambda>c. c \<noteq> CHR 0x00) (take len (payload p))) s1 of
                     Inl e \<Rightarrow> Inl e
                   | Inr s2 \<Rightarrow>
                       let s3 = s2\<lparr>calibreHost := remoteIP p\<rparr>;
                           s4 = (if calibreHostname s3 = []
                                 then s3\<lparr>calibreHostname := calibreHost s3\<rparr> else s3)
                       in Inr (connect_to_calibre net s4))
                else Inr s1))"

section \<open>Command handlers\<close>

definition handleGetInitializationInfo :: "string \<Rightarrow> activity \<Rightarrow> activity" where
  "handleGetInitializationInfo data s =
     sendJsonResponse OK
       (concat
          [''{'',
           ''\"appName\":\"CrossPoint\",'',
           ''\"acceptedExtensions\":[\"epub\"],'',
           ''\"cacheUsesLpaths\":true,'',
           ''\"canAcceptLibraryInfo\":true,'',
           ''\"canDeleteMultipleBooks\":true,'',
           ''\"canReceiveBookBinary\":true,'',
           ''\"canSendOkToSendbook\":true,'',
           ''\"canStreamBooks\":true,'',
           ''\"canStreamMetadata\":true,'',
           ''\"canUseCachedMetadata\":true,'',
           ''\"ccVersionNumber\":212,'',
           ''\"coverHeight\":800,'',
           ''\"deviceKind\":\"CrossPoint\",'',
           ''\"deviceName\":\"CrossPoint\",'',
           ''\"extensionPathLengths\":{\"epub\":37},'',
           ''\"maxBookContentPacketLen\":4096,'',
           ''\"passwordHash\":\"\",'',
           ''\"useUuidFileNames\":false,'',
           ''\"versionOK\":true'',
           ''}''])
       (setStatus (''Connected to '' @ calibreHostname s @ ''\<newline>Waiting for transfer...'')
          (setState WAITING s))"

text \<open>\<^verbatim>\<open>%02x\<close> of a byte.\<close>

definition hex2 :: "nat \<Rightarrow> string" where
  "hex2 b = [''0123456789abcdef'' ! (b mod 256 div 16), ''0123456789abcdef'' ! (b mod 16)]"

definition getDeviceUuid :: "deps \<Rightarrow> string" where
  "getDeviceUuid d =
     (let mac = macAddress d in
      concat [hex2 (mac 0), hex2 (mac 1), hex2 (mac 2), hex2 (mac 3), ''-'',
              hex2 (mac 4), hex2 (mac 5), ''-4000-8000-'',
              hex2 (mac 0), hex2 (mac 1), hex2 (mac 2), hex2 (mac 3), hex2 (mac 4),
              hex2 (mac 5)])"

definition handleGetDeviceInformation :: "deps \<Rightarrow> activity \<Rightarrow> activity" where
  "handleGetDeviceInformation d s =
     sendJsonResponse OK
       (concat
          [''{'',
           ''\"device_info\":{'',
           ''\"device_store_uuid\":\"'', getDeviceUuid d, ''\",'',
           ''\"device_name\":\"CrossPoint Reader\",'',
           ''\"device_version\":\"'', CROSSPOINT_VERSION d, ''\"'',
           ''},'',
           ''\"version\":1,'',
           ''\"device_version\":\"'', CROSSPOINT_VERSION d, ''\"'',
           ''}''])
       s"

definition probeSizes :: "nat list" where
  "probeSizes =
     [256 * 1024 * 1024 * 1024, 128 * 1024 * 1024 * 1024, 64 * 1024 * 1024 * 1024,
      32 * 1024 * 1024 * 1024, 16 * 1024 * 1024 * 1024, 8 * 1024 * 1024 * 1024,
      4 * 1024 * 1024 * 1024, 2 * 1024 * 1024 * 1024, 1 * 1024 * 1024 * 1024,
      512 * 1024 * 1024, 256 * 1024 * 1024, 128 * 1024 * 1024, 64 * 1024 * 1024]"

text \<open>
  \<^verbatim>\<open>getSDCardFreeSpace\<close> (a \<^verbatim>\<open>const\<close> method): the first probe size that
  \<^verbatim>\<open>preAllocate\<close> grants. The probe file it creates and removes is not kept in the model.
\<close>

definition getSDCardFreeSpace :: "activity \<Rightarrow> nat" where
  "getSDCardFreeSpace s =
     (if \<not> can_open (SdMan s) ''/.crosspoint/.free_space_probe''
      then 64 * 1024 * 1024 * 1024
      else (case find (\<lambda>probe. probe \<le> prealloc_limit (SdMan s)) probeSizes of
              Some probe \<Rightarrow> probe
            | None \<Rightarrow> 64 * 1024 * 1024))"

text \<open>\<^verbatim>\<open>snprintf\<close> into \<^verbatim>\<open>char response[64]\<close> keeps at most 63 characters.\<close>

definition handleFreeSpace :: "activity \<Rightarrow> activity" where
  "handleFreeSpace s =
     (let freeBytes = getSDCardFreeSpace s;
          response = take 63 (''{\"free_space_on_device\":'' @ to_string freeBytes @ ''}'')
      in sendJsonResponse OK response s)"

definition handleGetBookCount :: "activity \<Rightarrow> activity" where
  "handleGetBookCount s =
     sendJsonResponse OK ''{\"count\":0,\"willStream\":true,\"willScan\":false}'' s"

text \<open>Lines 633--646: the value of \<^verbatim>\<open>"lpath"\<close>.\<close>

definition extract_lpath :: "string \<Rightarrow> string" where
  "extract_lpath data =
     (case find_str data ''\"lpath\"'' of
        None \<Rightarrow> []
      | Some lpathPos \<Rightarrow>
          (case find_char data CHR '':'' (lpathPos + 7) of
             None \<Rightarrow> []
           | Some colonPos \<Rightarrow>
               (case find_char data CHR 0x22 (colonPos + 1) of
                  None \<Rightarrow> []
                | Some quoteStart \<Rightarrow>
                    (case find_char data CHR 0x22 (quoteStart + 1) of
                       None \<Rightarrow> []
                     | Some quoteEnd \<Rightarrow>
                         substr data (quoteStart + 1) (quoteEnd - quoteStart - 1)))))"

function skip_blanks :: "string \<Rightarrow> nat \<Rightarrow> nat" where
  "skip_blanks data numStart =
     (if numStart < length data
         \<and> (data ! numStart = CHR '' '' \<or> data ! numStart = CHR 0x09)
      then skip_blanks data (numStart + 1) else numStart)"
  by pat_completeness auto
termination
  by (relation "measure (\<lambda>(data, numStart). length data - numStart)") auto

function skip_digits :: "string \<Rightarrow> nat \<Rightarrow> nat" where
  "skip_digits data numEnd =
     (if numEnd < length data \<and> is_digit (data ! numEnd)
      then skip_digits data (numEnd + 1) else numEnd)"
  by pat_completeness auto
termination
  by (relation "measure (\<lambda>(data, numEnd). length data - numEnd)") auto

declare skip_blanks.simps [simp del] skip_digits.simps [simp del]

text \<open>
  Lines 660--683, the body of the test at a quote character at position \<open>i\<close>:
  \<open>Some n\<close> when the loop is left by \<^verbatim>\<open>break\<close> with \<^verbatim>\<open>length = n\<close>, \<open>None\<close> when the
  loop goes on (\<^verbatim>\<open>length\<close> is then \<open>0\<close>, as before).
\<close>

definition length_at :: "string \<Rightarrow> nat \<Rightarrow> nat option" where
  "length_at data i =
     (if i + 9 < length data \<and> substr data i 8 = ''\"length\"'' then
        (case find_char data CHR '':'' (i + 8) of
           None \<Rightarrow> None
         | Some colonPos \<Rightarrow>
             (let numStart = skip_blanks data (colonPos + 1);
                  numEnd = skip_digits data numStart
              in if numEnd > numStart then
                   (case strtoul (substr data numStart (numEnd - numStart)) of
                      (v, endPtr) \<Rightarrow> if endPtr = [] then Some v else None)
                 else None))
      else None)"

text \<open>Lines 650--685: the scan for the \<^verbatim>\<open>"length"\<close> key, with the depth counter.\<close>

function scan_length :: "string \<Rightarrow> nat \<Rightarrow> int \<Rightarrow> nat" where
  "scan_length data i depth =
     (if i < length data then
        (let c = data ! i in
         if c = CHR ''{'' \<or> c = CHR ''['' then scan_length data (i + 1) (depth + 1)
         else if c = CHR ''}'' \<or> c = CHR '']'' then scan_length data (i + 1) (depth - 1)
         else if depth = 1 \<and> c = CHR 0x22 then
           (case length_at data i of
              Some n \<Rightarrow> n
            | None \<Rightarrow> scan_length data (i + 1) depth)
         else scan_length data (i + 1) depth)
      else 0)"
  by pat_completeness auto
termination
  by (relation "measure (\<lambda>(data, i, depth). length data - i)") auto

declare scan_length.simps [simp del]

definition extract_length :: "string \<Rightarrow> nat" where
  "extract_length data = scan_length data 0 0"


text \<open>
  Lines 730--739 of \<^verbatim>\<open>handleSendBook\<close>: bytes of the file that arrived together with
  the message are already in \<^verbatim>\<open>recvBuffer\<close> and are written first.
\<close>

definition drain_recvBuffer :: "activity \<Rightarrow> activity option" where
  "drain_recvBuffer s =
     (if recvBuffer s \<noteq> [] then
        (let toWrite = min (length (recvBuffer s)) (binaryBytesRemaining s)
         in case bufferedWrite (take toWrite (recvBuffer s)) s of
              None \<Rightarrow> None
            | Some (ok, s1) \<Rightarrow>
                Some (if ok then
                        s1\<lparr>bytesReceived := bytesReceived s1 + toWrite,
                           binaryBytesRemaining := binaryBytesRemaining s1 - toWrite,
                           recvBuffer := substr_from (recvBuffer s1) toWrite,
                           updateRequired := True\<rparr>
                      else s1))
      else Some s)"

text \<open>
  \<^verbatim>\<open>handleSendBook\<close>. The result is \<open>None\<close> only if the drain does not return.
\<close>

definition handleSendBook :: "deps \<Rightarrow> string \<Rightarrow> activity \<Rightarrow> activity option" where
  "handleSendBook d data s =
     (let lpath = extract_lpath data;
          len = extract_length data
      in if lpath = [] \<or> len = 0 then
           Some (sendJsonResponse OpCode_ERROR ''{\"message\":\"Invalid book data\"}'' s)
         else
           (let filename = (case rfind_char lpath CHR ''/'' of
                              Some lastSlash \<Rightarrow> substr_from lpath (lastSlash + 1)
                            | None \<Rightarrow> lpath);
                name = ''/'' @ sanitizeFilename d filename;
                s1 = s\<lparr>currentFilename :=
                          (if checkFileExtension d name ''.epub'' then name
                           else name @ ''.epub''),
                       currentFileSize := len, bytesReceived := 0\<rparr>;
                s2 = setStatus (''Receiving: '' @ filename) (setState RECEIVING s1)
            in case openFileForWrite (SdMan s2) (currentFilename s2) of
                 None \<Rightarrow>
                   Some (sendJsonResponse OpCode_ERROR
                           ''{\"message\":\"Failed to create file\"}''
                           (setError ''Failed to create file'' s2))
               | Some f \<Rightarrow>
                   (let s3 = s2\<lparr>currentFile := f, currentWriteFile := True, writeBuffer := []\<rparr>;
                        s4 = sendJsonResponse OK ''{}'' s3
                    in drain_recvBuffer
                         (s4\<lparr>inBinaryMode := True, binaryBytesRemaining := len\<rparr>))))"

definition handleSendBookMetadata :: "string \<Rightarrow> activity \<Rightarrow> activity" where
  "handleSendBookMetadata data s = sendJsonResponse OK ''{}'' s"

definition handleDisplayMessage :: "string \<Rightarrow> activity \<Rightarrow> activity" where
  "handleDisplayMessage data s =
     sendJsonResponse OK ''{}''
       (if find_str data ''\"messageKind\":1'' = None then s
        else setError ''Password required'' s)"

definition handleNoop :: "string \<Rightarrow> activity \<Rightarrow> activity" where
  "handleNoop data s =
     sendJsonResponse NOOP ''{}''
       (if find_str data ''\"ejecting\":true'' = None then s
        else setStatus ''Calibre disconnected'' (setState DISCONNECTED s))"

definition handleCommand :: "deps \<Rightarrow> OpCode \<Rightarrow> string \<Rightarrow> activity \<Rightarrow> activity option" where
  "handleCommand d opcode data s =
     (if opcode = GET_INITIALIZATION_INFO then Some (handleGetInitializationInfo data s)
      else if opcode = GET_DEVICE_INFORMATION then Some (handleGetDeviceInformation d s)
      else if opcode = FREE_SPACE then Some (handleFreeSpace s)
      else if opcode = GET_BOOK_COUNT then Some (handleGetBookCount s)
      else if opcode = SEND_BOOK then handleSendBook d data s
      else if opcode = SEND_BOOK_METADATA then Some (handleSendBookMetadata data s)
      else if opcode = DISPLAY_MESSAGE then Some (handleDisplayMessage data s)
      else if opcode = NOOP then Some (handleNoop data s)
      else if opcode = SET_CALIBRE_DEVICE_INFO \<or> opcode = SET_CALIBRE_DEVICE_NAME
        then Some (sendJsonResponse OK ''{}'' s)
      else if opcode = SET_LIBRARY_INFO then Some (sendJsonResponse OK ''{}'' s)
      else if opcode = SEND_BOOKLISTS then Some (sendJsonResponse OK ''{}'' s)
      else if opcode = TOTAL_SPACE then Some (handleFreeSpace s)
      else Some (sendJsonResponse OK ''{}'' s))"

section \<open>Receiving the book\<close>

text \<open>Lines 790--794 and 770--774: give the file up.\<close>

definition abort_transfer :: "string \<Rightarrow> activity \<Rightarrow> activity" where
  "abort_transfer message s =
     setError message
       ((currentFile_close ((snd (flushWriteBuffer s))\<lparr>currentWriteFile := False\<rparr>))
          \<lparr>inBinaryMode := False\<rparr>)"

text \<open>Lines 802--816: the transfer is complete.\<close>

definition complete_transfer :: "activity \<Rightarrow> activity" where
  "complete_transfer s =
     (let s1 = (snd (flushWriteBuffer s))\<lparr>currentWriteFile := False\<rparr>;
          s2 = (currentFile_close (currentFile_flush s1))\<lparr>inBinaryMode := False\<rparr>;
          s3 = setStatus (''Received: '' @ currentFilename s2 @ ''\<newline>Waiting for more...'')
                 (setState WAITING s2)
      in sendJsonResponse OK ''{}'' s3)"

definition receiveBinaryData :: "activity \<Rightarrow> activity option" where
  "receiveBinaryData s =
     (if tcp_available (tcp s) = 0 then
        Some (if connected (tcp s) then s else abort_transfer ''Transfer interrupted'' s)
      else
        (let toRead = min 4096 (binaryBytesRemaining s);
             got = tcp_read (tcp s) toRead;
             bytesRead = length (fst got);
             s1 = s\<lparr>tcp := snd got\<rparr>
         in if bytesRead > 0 then
              (case bufferedWrite (fst got) s1 of
                 None \<Rightarrow> None
               | Some (ok, s2) \<Rightarrow>
                   if ok then
                     (let s3 = s2\<lparr>bytesReceived := bytesReceived s2 + bytesRead,
                                  binaryBytesRemaining := binaryBytesRemaining s2 - bytesRead,
                                  updateRequired := True\<rparr>
                      in if binaryBytesRemaining s3 = 0 then Some (complete_transfer s3)
                         else Some s3)
                   else Some (abort_transfer ''Write error'' s2))
            else Some s1))"

text \<open>
  The states of a transfer session: the one \<^verbatim>\<open>handleSendBook\<close> leaves when it has
  switched to binary mode, and from there any number of network events (bytes arrive,
  the peer closes) and calls of \<^verbatim>\<open>receiveBinaryData\<close>, which \<^verbatim>\<open>handleTcpClient\<close>
  makes while \<^verbatim>\<open>inBinaryMode\<close> is set.
\<close>

inductive session_state :: "activity \<Rightarrow> bool" where
  created:
    "\<not> inBinaryMode s0 \<Longrightarrow> handleSendBook d data s0 = Some s \<Longrightarrow> inBinaryMode s
     \<Longrightarrow> session_state s"
| network:
    "session_state s
     \<Longrightarrow> session_state (s\<lparr>tcp := (tcp s)\<lparr>rx := rx (tcp s) @ arrived, connected := c\<rparr>\<rparr>)"
| received:
    "session_state s \<Longrightarrow> inBinaryMode s \<Longrightarrow> receiveBinaryData s = Some s'
     \<Longrightarrow> session_state s'"

section \<open>States used as examples\<close>

text \<open>
  A connected activity that waits for a command, with a card that accepts a million
  bytes; and the same with a card that is full.
\<close>

definition idle :: activity where
  "idle =
     \<lparr>state = WAITING, statusMessage = [], errorMessage = [], calibreHost = [],
      calibrePort = 0, calibreAltPort = 0, calibreHostname = [], currentFilename = [],
      currentFileSize = 0, bytesReceived = 0, inBinaryMode = False, binaryBytesRemaining = 0,
      recvBuffer = [], updateRequired = False, shouldStop = False, networkTaskHandle = True,
      displayTaskHandle = True, renderingMutexHandle = True, stateMutexHandle = True,
      writeBuffer = [], currentWriteFile = False, currentFile = closed_file,
      tcp = \<lparr>connected = True, rx = [], tx = []\<rparr>,
      SdMan = \<lparr>can_open = (\<lambda>path. True), free_bytes = 1000000, prealloc_limit = 1000000\<rparr>,
      trace = []\<rparr>"

definition idle_full_card :: activity where
  "idle_full_card =
     idle\<lparr>SdMan := \<lparr>can_open = (\<lambda>path. True), free_bytes = 0, prealloc_limit = 0\<rparr>\<rparr>"

definition example_deps :: deps where
  "example_deps =
     \<lparr>sanitizeFilename = (\<lambda>name. name),
      checkFileExtension = (\<lambda>name ext. drop (length name - length ext) name = ext),
      CROSSPOINT_VERSION = ''1.0.0'',
      macAddress = (\<lambda>i. 0)\<rparr>"

section \<open>Notions of the specification\<close>









text \<open>
  What holds of the counters and the write target during a transfer session: the
  received and the outstanding bytes add up to the declared size, and while binary mode
  is on the target is open and the 4 KiB buffer is not full.
\<close>

definition session_inv :: "activity \<Rightarrow> bool" where
  "session_inv s =
     (bytesReceived s + binaryBytesRemaining s = currentFileSize s
      \<and> (inBinaryMode s \<longrightarrow>
           currentWriteFile s \<and> is_open (currentFile s)
           \<and> writeBufferPos s < WRITE_BUFFER_SIZE))"

text \<open>A task is terminated by force.\<close>

definition is_TaskDelete :: "event \<Rightarrow> bool" where
  "is_TaskDelete e = (e = TaskDelete CalNetworkTask \<or> e = TaskDelete CalDisplayTask)"

text \<open>
  Sessions used as examples. \<^verbatim>\<open>SEND_BOOK\<close> declares 3 bytes and all 3 came with the
  message: the state \<^verbatim>\<open>handleSendBook\<close> leaves.
\<close>

definition pipelined_session :: "deps \<Rightarrow> activity" where
  "pipelined_session d =
     idle\<lparr>state := RECEIVING, statusMessage := ''Receiving: a.epub'',
          currentFilename :=
            (if checkFileExtension d (''/'' @ sanitizeFilename d ''a.epub'') ''.epub''
             then ''/'' @ sanitizeFilename d ''a.epub''
             else ''/'' @ sanitizeFilename d ''a.epub'' @ ''.epub''),
          currentFileSize := 3, bytesReceived := 3, inBinaryMode := True,
          binaryBytesRemaining := 0, recvBuffer := [], updateRequired := True,
          writeBuffer := ''abc'', currentWriteFile := True,
          currentFile := \<lparr>is_open = True, written = [], room = 1000000\<rparr>,
          tcp := \<lparr>connected = True, rx = [], tx = [''6[0,{}]'']\<rparr>,
          trace := [MutexTake stateMutex, MutexGive stateMutex]\<rparr>"

text \<open>
  \<^verbatim>\<open>SEND_BOOK\<close> declares 5000 bytes, 4096 of them came with the message, and the card
  is full: the state \<^verbatim>\<open>handleSendBook\<close> leaves.
\<close>

definition short_drain_session :: "deps \<Rightarrow> activity" where
  "short_drain_session d =
     idle_full_card\<lparr>state := RECEIVING, statusMessage := ''Receiving: a.epub'',
          currentFilename :=
            (if checkFileExtension d (''/'' @ sanitizeFilename d ''a.epub'') ''.epub''
             then ''/'' @ sanitizeFilename d ''a.epub''
             else ''/'' @ sanitizeFilename d ''a.epub'' @ ''.epub''),
          currentFileSize := 5000, bytesReceived := 0, inBinaryMode := True,
          binaryBytesRemaining := 5000, recvBuffer := replicate 4096 CHR ''x'',
          updateRequired := True,
          writeBuffer := [], currentWriteFile := True,
          currentFile := \<lparr>is_open = True, written = [], room = 0\<rparr>,
          tcp := \<lparr>connected = True, rx = [], tx = [''6[0,{}]'']\<rparr>,
          trace := [MutexTake stateMutex, MutexGive stateMutex, FileWrite 4096 0]\<rparr>"

text \<open>
  \<^verbatim>\<open>SEND_BOOK\<close> declares 3 bytes, none came with the message, and the card is full:
  the state \<^verbatim>\<open>handleSendBook\<close> leaves.
\<close>

definition full_card_session :: "deps \<Rightarrow> activity" where
  "full_card_session d =
     idle_full_card\<lparr>state := RECEIVING, statusMessage := ''Receiving: a.epub'',
          currentFilename :=
            (if checkFileExtension d (''/'' @ sanitizeFilename d ''a.epub'') ''.epub''
             then ''/'' @ sanitizeFilename d ''a.epub''
             else ''/'' @ sanitizeFilename d ''a.epub'' @ ''.epub''),
          currentFileSize := 3, bytesReceived := 0, inBinaryMode := True,
          binaryBytesRemaining := 3,
          updateRequired := True,
          writeBuffer := [], currentWriteFile := True,
          currentFile := \<lparr>is_open = True, written = [], room = 0\<rparr>,
          tcp := \<lparr>connected = True, rx = [], tx = [''6[0,{}]'']\<rparr>,
          trace := [MutexTake stateMutex, MutexGive stateMutex]\<rparr>"

definition example_teardown :: teardown where
  "example_teardown =
     \<lparr>network_task_deleted = False, display_task_deleted = False,
      rendering_mutex_taken = True\<rparr>"

section \<open>Framing\<close>

lemmas OpCode_defs =
  OK_def SET_CALIBRE_DEVICE_INFO_def SET_CALIBRE_DEVICE_NAME_def GET_DEVICE_INFORMATION_def
  TOTAL_SPACE_def FREE_SPACE_def GET_BOOK_COUNT_def SEND_BOOKLISTS_def SEND_BOOK_def
  GET_INITIALIZATION_INFO_def BOOK_DONE_def NOOP_def DELETE_BOOK_def
  GET_BOOK_FILE_SEGMENT_def GET_BOOK_METADATA_def SEND_BOOK_METADATA_def
  DISPLAY_MESSAGE_def CALIBRE_BUSY_def SET_LIBRARY_INFO_def OpCode_ERROR_def

text \<open>The read loop moves every arrived byte into the buffer.\<close>

lemma read_chunks_take:
  "n \<le> length (rx (tcp s)) \<Longrightarrow>
   read_chunks n s =
     s\<lparr>recvBuffer := recvBuffer s @ take n (rx (tcp s)),
       tcp := (tcp s)\<lparr>rx := drop n (rx (tcp s))\<rparr>\<rparr>"
proof (induction n s rule: read_chunks.induct)
  case (1 available s)
  show ?case
  proof (cases "available > 0")
    case False
    then show ?thesis by (simp add: read_chunks.simps)
  next
    case True
    define k where "k = min available 1024"
    define s1 where "s1 = s\<lparr>recvBuffer := recvBuffer s @ take k (rx (tcp s)),
                   tcp := (tcp s)\<lparr>rx := drop k (rx (tcp s))\<rparr>\<rparr>"
    from True "1.prems" have len: "length (take k (rx (tcp s))) = k" by (simp add: k_def)
    from True have kpos: "k > 0" by (simp add: k_def)
    have f: "fst (tcp_read (tcp s) k) = take k (rx (tcp s))"
      and g: "snd (tcp_read (tcp s) k) = (tcp s)\<lparr>rx := drop k (rx (tcp s))\<rparr>"
      by (simp_all add: tcp_read_def)
    have step: "read_chunks available s = read_chunks (available - k) s1"
      apply (subst read_chunks.simps)
      apply (simp only: Let_def True if_True k_def[symmetric] f g len kpos s1_def)
      done
    have le: "available - k \<le> length (rx (tcp s1))" using "1.prems" by (simp add: s1_def)
    have IH: "read_chunks (available - k) s1 =
       s1\<lparr>recvBuffer := recvBuffer s1 @ take (available - k) (rx (tcp s1)),
         tcp := (tcp s1)\<lparr>rx := drop (available - k) (rx (tcp s1))\<rparr>\<rparr>"
      using "1.IH"[OF True refl refl refl] le kpos
      unfolding k_def[symmetric] f g len s1_def[symmetric]
      by blast
    have tk: "take k (rx (tcp s)) @ take (available - k) (drop k (rx (tcp s)))
         = take available (rx (tcp s))"
      by (metis k_def le_add_diff_inverse min.cobounded1 take_add)
    have ka: "k + (available - k) = available" by (simp add: k_def)
    have "s1\<lparr>recvBuffer := recvBuffer s1 @ take (available - k) (rx (tcp s1)),
         tcp := (tcp s1)\<lparr>rx := drop (available - k) (rx (tcp s1))\<rparr>\<rparr>
        = s\<lparr>recvBuffer := recvBuffer s @ take available (rx (tcp s)),
       tcp := (tcp s)\<lparr>rx := drop available (rx (tcp s))\<rparr>\<rparr>"
      using tk ka by (simp add: s1_def add.commute)
    then show ?thesis using step IH by simp
  qed
qed

lemma fill_buffer:
  "(if tcp_available (tcp s) > 0 then read_chunks (tcp_available (tcp s)) s else s) =
     s\<lparr>recvBuffer := recvBuffer s @ rx (tcp s), tcp := (tcp s)\<lparr>rx := []\<rparr>\<rparr>"
  by (simp add: tcp_available_def read_chunks_take)

lemma index_of_None: "index_of c s = None \<longleftrightarrow> c \<notin> set s"
  by (induction s) auto

lemma index_of_append: "c \<notin> set g \<Longrightarrow> index_of c (g @ c # rest) = Some (length g)"
  by (induction g) auto

lemma index_of_less: "index_of c s = Some p \<Longrightarrow> p < length s"
  by (induction s arbitrary: p) (auto split: if_splits)

lemma find_char_0: "find_char s c 0 = index_of c s"
proof -
  have "((+) (0::nat)) = id" by auto
  then show ?thesis by (cases s) (simp_all add: find_char_def option.map_id)
qed

lemma digit_not_space: "is_digit c \<Longrightarrow> \<not> isspace c"
  by (auto simp: is_digit_def isspace_def)

lemma digit_not_sign: "is_digit c \<Longrightarrow> c \<noteq> CHR ''-'' \<and> c \<noteq> CHR ''+''"
  by (auto simp: is_digit_def)

lemma scan_number_digits:
  "list_all is_digit ds \<Longrightarrow> ds \<noteq> [] \<Longrightarrow> scan_number ds = (False, ds, [])"
  by (cases ds) (simp_all add: scan_number_def Let_def digit_not_space digit_not_sign list_all_iff)

lemma stoul_digits:
  "list_all is_digit ds \<Longrightarrow> ds \<noteq> [] \<Longrightarrow>
   stoul ds = (if ULONG_MAX < decimal ds then Inl out_of_range else Inr (decimal ds))"
  by (simp add: stoul_def scan_number_digits)

lemma digits_no_bracket: "list_all is_digit ds \<Longrightarrow> CHR ''['' \<notin> set ds"
  by (auto simp: list_all_iff is_digit_def)

lemma readJsonMessage_filled:
  assumes "tcp_available (tcp s) = 0 \<or> length (recvBuffer s) \<le> 100000"
  shows "readJsonMessage s =
    readJsonMessage (s\<lparr>recvBuffer := recvBuffer s @ rx (tcp s), tcp := (tcp s)\<lparr>rx := []\<rparr>\<rparr>)"
proof (cases "rx (tcp s) = []")
  case True
  then have "s\<lparr>recvBuffer := recvBuffer s @ rx (tcp s), tcp := (tcp s)\<lparr>rx := []\<rparr>\<rparr> = s"
    by simp
  then show ?thesis by simp
next
  case False
  then have "\<not> 100000 < length (recvBuffer s)"
    using assms by (simp add: tcp_available_def)
  then show ?thesis
    using False by (simp add: readJsonMessage_def tcp_available_def read_chunks_take)
qed


lemma index_of_nth: "index_of c s = Some p \<Longrightarrow> s ! p = c"
  by (induction s arbitrary: p) (auto split: if_splits)

lemma cap_reset:
  "0 < tcp_available (tcp s) \<Longrightarrow> 100000 < length (recvBuffer s) \<Longrightarrow>
   readJsonMessage s = Inr (None, s\<lparr>recvBuffer := []\<rparr>)"
  by (simp add: readJsonMessage_def)

lemma returned_frame_below_cap:
  assumes "readJsonMessage s = Inr (Some m, s')"
  shows "tcp_available (tcp s) = 0 \<or> length (recvBuffer s) \<le> 100000"
proof (rule ccontr)
  assume "\<not> (tcp_available (tcp s) = 0 \<or> length (recvBuffer s) \<le> 100000)"
  then have "readJsonMessage s = Inr (None, s\<lparr>recvBuffer := []\<rparr>)"
    by (intro cap_reset) auto
  then show False using assms by simp
qed

lemma frame_position:
  assumes "readJsonMessage s = Inr (Some m, s')"
  shows "\<exists>p. index_of CHR ''['' (recvBuffer s @ rx (tcp s)) = Some p
           \<and> 0 < p \<and> p \<le> 12 \<and> list_all is_digit (take p (recvBuffer s @ rx (tcp s)))
           \<and> p + decimal (take p (recvBuffer s @ rx (tcp s))) \<le> length (recvBuffer s @ rx (tcp s))
           \<and> m = take (decimal (take p (recvBuffer s @ rx (tcp s))))
                   (drop p (recvBuffer s @ rx (tcp s)))
           \<and> recvBuffer s' = drop (p + decimal (take p (recvBuffer s @ rx (tcp s))))
                   (recvBuffer s @ rx (tcp s))"
proof -
  define B where "B = recvBuffer s @ rx (tcp s)"
  let ?s = "s\<lparr>recvBuffer := B, tcp := (tcp s)\<lparr>rx := []\<rparr>\<rparr>"
  have cap: "tcp_available (tcp s) = 0 \<or> length (recvBuffer s) \<le> 100000"
    using assms by (rule returned_frame_below_cap)
  have r: "readJsonMessage ?s = Inr (Some m, s')"
    using assms readJsonMessage_filled[OF cap] by (simp add: B_def)
  have ne: "B \<noteq> []" using r by (auto simp add: readJsonMessage_def tcp_available_def)
  obtain p where p: "index_of CHR ''['' B = Some p"
    using r ne by (cases "index_of CHR ''['' B")
      (auto simp add: readJsonMessage_def tcp_available_def find_char_0 Let_def)
  have dg: "0 < p \<and> p \<le> 12 \<and> list_all is_digit (take p B)"
    using r ne p by (auto simp add: readJsonMessage_def tcp_available_def find_char_0
        Let_def split: if_splits)
  have pl: "p < length B" using p by (rule index_of_less)
  have tn: "take p B \<noteq> []" using dg pl by auto
  have st: "stoul (take p B) =
      (if ULONG_MAX < decimal (take p B) then Inl out_of_range else Inr (decimal (take p B)))"
    using dg tn by (simp add: stoul_digits)
  have "p + decimal (take p B) \<le> length B
        \<and> m = take (decimal (take p B)) (drop p B)
        \<and> recvBuffer s' = drop (p + decimal (take p B)) B"
    using r ne p dg st
    by (auto simp add: readJsonMessage_def tcp_available_def find_char_0 substr_def
        substr_from_def Let_def split: if_splits)
  then show ?thesis using p dg unfolding B_def by blast
qed

text \<open>
  C1, as amended. The first call on \<^verbatim>\<open>garbage[5,{}]more\<close> resynchronises: it reports no
  message and discards exactly \<^verbatim>\<open>garbage\<close>, leaving \<^verbatim>\<open>[5,{}]more\<close>; the next call
  reports no message and leaves \<^verbatim>\<open>[5,{}]more\<close> as it is. In general, for a call that
  the size test of the buffer does not cut short: when the bytes before the first \<^verbatim>\<open>[\<close>
  are not empty and are not a prefix of 1 to 12 digits, the call reports no message and
  discards exactly these bytes (at least one); when the buffer, with the arrived bytes
  appended, starts with \<^verbatim>\<open>[\<close>, the call reports no message and discards nothing. A
  message is only ever taken behind a length prefix: whenever a call returns a message,
  the buffer with the arrived bytes appended was a prefix of 1 to 12 digits, then the
  message, then what the call leaves in the buffer; the value of the prefix is the size
  of the message, at most 1000000, and a \<^verbatim>\<open>[\<close> stood right behind the prefix.
\<close>

theorem garbage_resync:
  "(rx (tcp s) = [] \<and> recvBuffer s = ''garbage[5,{}]more'' \<longrightarrow>
      readJsonMessage s = Inr (None, s\<lparr>recvBuffer := ''[5,{}]more''\<rparr>)
      \<and> readJsonMessage (s\<lparr>recvBuffer := ''[5,{}]more''\<rparr>)
          = Inr (None, s\<lparr>recvBuffer := ''[5,{}]more''\<rparr>))
   \<and> ((tcp_available (tcp s) = 0 \<or> length (recvBuffer s) \<le> 100000)
       \<and> recvBuffer s @ rx (tcp s) = g @ CHR ''['' # rest
       \<and> CHR ''['' \<notin> set g \<and> g \<noteq> [] \<and> (12 < length g \<or> \<not> list_all is_digit g) \<longrightarrow>
      readJsonMessage s =
        Inr (None, s\<lparr>recvBuffer := CHR ''['' # rest, tcp := (tcp s)\<lparr>rx := []\<rparr>\<rparr>))
   \<and> ((tcp_available (tcp s) = 0 \<or> length (recvBuffer s) \<le> 100000)
       \<and> recvBuffer s @ rx (tcp s) = CHR ''['' # rest \<longrightarrow>
      readJsonMessage s =
        Inr (None, s\<lparr>recvBuffer := CHR ''['' # rest, tcp := (tcp s)\<lparr>rx := []\<rparr>\<rparr>))
   \<and> (readJsonMessage s = Inr (Some m, s') \<longrightarrow>
        (\<exists>ds. recvBuffer s @ rx (tcp s) = ds @ m @ recvBuffer s'
           \<and> ds \<noteq> [] \<and> length ds \<le> 12 \<and> list_all is_digit ds
           \<and> decimal ds = length m \<and> length m \<le> 1000000
           \<and> take 1 (m @ recvBuffer s') = ''[''))"
proof (intro conjI impI)
  assume a: "rx (tcp s) = [] \<and> recvBuffer s = ''garbage[5,{}]more''"
  then show "readJsonMessage s = Inr (None, s\<lparr>recvBuffer := ''[5,{}]more''\<rparr>)"
    by (simp add: readJsonMessage_def tcp_available_def find_char_def is_digit_def
        substr_from_def)
  from a show "readJsonMessage (s\<lparr>recvBuffer := ''[5,{}]more''\<rparr>)
          = Inr (None, s\<lparr>recvBuffer := ''[5,{}]more''\<rparr>)"
    by (simp add: readJsonMessage_def tcp_available_def find_char_def)
next
  assume a: "(tcp_available (tcp s) = 0 \<or> length (recvBuffer s) \<le> 100000)
       \<and> recvBuffer s @ rx (tcp s) = g @ CHR ''['' # rest
       \<and> CHR ''['' \<notin> set g \<and> g \<noteq> [] \<and> (12 < length g \<or> \<not> list_all is_digit g)"
  then have cap: "tcp_available (tcp s) = 0 \<or> length (recvBuffer s) \<le> 100000"
    and buf: "recvBuffer s @ rx (tcp s) = g @ CHR ''['' # rest"
    and g: "CHR ''['' \<notin> set g" "g \<noteq> []" "12 < length g \<or> \<not> list_all is_digit g"
    by blast+
  have "index_of CHR ''['' (g @ CHR ''['' # rest) = Some (length g)"
    using g(1) by (rule index_of_append)
  then show "readJsonMessage s =
        Inr (None, s\<lparr>recvBuffer := CHR ''['' # rest, tcp := (tcp s)\<lparr>rx := []\<rparr>\<rparr>)"
    using g(2,3)
    by (subst readJsonMessage_filled[OF cap])
       (auto simp add: readJsonMessage_def buf tcp_available_def find_char_0 substr_from_def)
next
  assume a: "(tcp_available (tcp s) = 0 \<or> length (recvBuffer s) \<le> 100000)
       \<and> recvBuffer s @ rx (tcp s) = CHR ''['' # rest"
  then have cap: "tcp_available (tcp s) = 0 \<or> length (recvBuffer s) \<le> 100000"
    and buf: "recvBuffer s @ rx (tcp s) = CHR ''['' # rest"
    by blast+
  show "readJsonMessage s =
        Inr (None, s\<lparr>recvBuffer := CHR ''['' # rest, tcp := (tcp s)\<lparr>rx := []\<rparr>\<rparr>)"
    by (subst readJsonMessage_filled[OF cap])
       (simp add: readJsonMessage_def buf tcp_available_def find_char_0)
next
  assume a: "readJsonMessage s = Inr (Some m, s')"
  define B where "B = recvBuffer s @ rx (tcp s)"
  from frame_position[OF a] obtain p where
    p: "index_of CHR ''['' B = Some p" and p0: "0 < p" and p12: "p \<le> 12"
    and dg: "list_all is_digit (take p B)"
    and le: "p + decimal (take p B) \<le> length B"
    and m: "m = take (decimal (take p B)) (drop p B)"
    and t: "recvBuffer s' = drop (p + decimal (take p B)) B"
    unfolding B_def by blast
  have pl: "p < length B" using p by (rule index_of_less)
  have lm: "length m = decimal (take p B)" using m le by simp
  have cap: "tcp_available (tcp s) = 0 \<or> length (recvBuffer s) \<le> 100000"
    using a by (rule returned_frame_below_cap)
  have small: "decimal (take p B) \<le> 1000000"
  proof (rule ccontr)
    assume "\<not> decimal (take p B) \<le> 1000000"
    then have big: "1000000 < decimal (take p B)" by simp
    have tn: "take p B \<noteq> []" using p0 pl by auto
    have "readJsonMessage (s\<lparr>recvBuffer := B, tcp := (tcp s)\<lparr>rx := []\<rparr>\<rparr>)
          = Inr (Some m, s')"
      using a readJsonMessage_filled[OF cap] by (simp add: B_def)
    then show False
      using p p0 p12 dg big tn pl
      by (auto simp add: readJsonMessage_def tcp_available_def find_char_0 substr_def
          stoul_digits Let_def split: if_splits)
  qed
  have mt: "m @ recvBuffer s' = drop p B"
    unfolding m t by (simp add: add.commute[of p] drop_drop[symmetric] del: drop_drop)
  have "drop p B = B ! p # drop (Suc p) B" using pl by (simp add: Cons_nth_drop_Suc)
  then have hd: "take 1 (m @ recvBuffer s') = ''[''"
    using mt index_of_nth[OF p] by simp
  have "B = take p B @ m @ recvBuffer s'" unfolding mt by simp
  moreover have "take p B \<noteq> []" using p0 pl by auto
  moreover have "length (take p B) \<le> 12" using p12 by simp
  ultimately show "\<exists>ds. recvBuffer s @ rx (tcp s) = ds @ m @ recvBuffer s'
           \<and> ds \<noteq> [] \<and> length ds \<le> 12 \<and> list_all is_digit ds
           \<and> decimal ds = length m \<and> length m \<le> 1000000
           \<and> take 1 (m @ recvBuffer s') = ''[''"
    using dg lm small hd unfolding B_def[symmetric]
    by (intro exI[of _ "take p B"]) simp
qed

theorem garbage_resync_witness:
  "readJsonMessage (idle\<lparr>recvBuffer := ''garbage[5,{}]more''\<rparr>) =
     Inr (None, idle\<lparr>recvBuffer := ''[5,{}]more''\<rparr>)
   \<and> readJsonMessage (idle\<lparr>recvBuffer := ''[5,{}]more''\<rparr>) =
     Inr (None, idle\<lparr>recvBuffer := ''[5,{}]more''\<rparr>)
   \<and> readJsonMessage (idle\<lparr>recvBuffer := ''x7'', tcp := (tcp idle)\<lparr>rx := ''[1,{}]''\<rparr>\<rparr>) =
     Inr (None, idle\<lparr>recvBuffer := ''[1,{}]''\<rparr>)
   \<and> readJsonMessage (idle\<lparr>recvBuffer := ''6[1,{}]6[''\<rparr>) =
       Inr (Some ''[1,{}]'', idle\<lparr>recvBuffer := ''6[''\<rparr>)
   \<and> (\<exists>ds. ''6[1,{}]6['' = ds @ ''[1,{}]'' @ ''6[''
           \<and> ds \<noteq> [] \<and> length ds \<le> 12 \<and> list_all is_digit ds
           \<and> decimal ds = length ''[1,{}]'')"
proof -
  have e: "readJsonMessage (idle\<lparr>recvBuffer := ''6[1,{}]6[''\<rparr>) =
       Inr (Some ''[1,{}]'', idle\<lparr>recvBuffer := ''6[''\<rparr>)"
    by (simp add: readJsonMessage_def idle_def tcp_available_def find_char_def is_digit_def
      substr_from_def substr_def stoul_def scan_number_def isspace_def decimal_def
      digit_value_def ULONG_MAX_def)
  have i: "rx (tcp idle) = []" by (simp add: idle_def)
  have n: "idle\<lparr>recvBuffer := ''[1,{}]'', tcp := (tcp idle)\<lparr>rx := []\<rparr>\<rparr>
           = idle\<lparr>recvBuffer := ''[1,{}]''\<rparr>"
    by (simp add: idle_def)
  show ?thesis
    using garbage_resync[of "idle\<lparr>recvBuffer := ''garbage[5,{}]more''\<rparr>"]
      garbage_resync[of "idle\<lparr>recvBuffer := ''[5,{}]more''\<rparr>" _ "''5,{}]more''"]
      garbage_resync[of "idle\<lparr>recvBuffer := ''x7'', tcp := (tcp idle)\<lparr>rx := ''[1,{}]''\<rparr>\<rparr>"
         "''x7''" "''1,{}]''"]
      garbage_resync[of "idle\<lparr>recvBuffer := ''6[1,{}]6[''\<rparr>" _ _ "''[1,{}]''"
         "idle\<lparr>recvBuffer := ''6[''\<rparr>"]
      e i n
    by (simp add: tcp_available_def is_digit_def)
qed

text \<open>
  C1 as stated fails: after the resynchronisation the buffer is \<^verbatim>\<open>[5,{}]more\<close>, and
  the next call reports no message and leaves the buffer as it is, so no later
  call differs: \<^verbatim>\<open>[5,{}]\<close> is never extracted and no byte is discarded.
\<close>

theorem garbage_never_extracted:
  "readJsonMessage (idle\<lparr>recvBuffer := ''garbage[5,{}]more''\<rparr>) =
     Inr (None, idle\<lparr>recvBuffer := ''[5,{}]more''\<rparr>)
   \<and> readJsonMessage (idle\<lparr>recvBuffer := ''[5,{}]more''\<rparr>) =
     Inr (None, idle\<lparr>recvBuffer := ''[5,{}]more''\<rparr>)"
  by (simp add: readJsonMessage_def idle_def tcp_available_def find_char_def is_digit_def
      substr_from_def)




lemma parse_keeps_tail:
  assumes "rx (tcp s) = []" and "readJsonMessage s = Inr (r, s')"
  shows "tcp s' = tcp s
       \<and> recvBuffer s' = drop (length (recvBuffer s) - length (recvBuffer s')) (recvBuffer s)"
  using assms
  by (auto simp add: readJsonMessage_def tcp_available_def substr_from_def Let_def find_char_0
        dest!: index_of_less split: option.splits sum.splits if_splits)

lemma incomplete_frame_kept:
  assumes cap: "tcp_available (tcp s) = 0 \<or> length (recvBuffer s) \<le> 100000"
    and buf: "recvBuffer s @ rx (tcp s) = ds @ CHR ''['' # rest"
    and ds: "list_all is_digit ds" "ds \<noteq> []" "length ds \<le> 12"
    and sz: "decimal ds \<le> 1000000" "length rest + 1 < decimal ds"
  shows "readJsonMessage s =
           Inr (None, s\<lparr>recvBuffer := ds @ CHR ''['' # rest, tcp := (tcp s)\<lparr>rx := []\<rparr>\<rparr>)"
proof -
  have "index_of CHR ''['' (ds @ CHR ''['' # rest) = Some (length ds)"
    using digits_no_bracket[OF ds(1)] by (rule index_of_append)
  moreover have "decimal ds \<le> ULONG_MAX" using sz by (simp add: ULONG_MAX_def)
  ultimately show ?thesis
    using ds sz
    by (subst readJsonMessage_filled[OF cap])
       (auto simp add: readJsonMessage_def buf tcp_available_def find_char_0 substr_def
          stoul_digits)
qed

text \<open>
  C5, as amended. The cap is tested on the size the buffer has before the append: a
  call that finds bytes on the socket and more than 100000 bytes in the buffer empties
  the buffer, reads nothing and reports no message. Every other call appends every
  arrived byte before it looks at the buffer: it does what the call on the buffer with
  the arrived bytes appended and the socket emptied does; when it returns, the socket is
  empty and the buffer is a tail of the old buffer followed by the arrived bytes; and
  when that text is empty, starts with \<^verbatim>\<open>[\<close>, has no \<^verbatim>\<open>[\<close> and at most 1000 bytes, or
  is the beginning of a message that has not arrived in full behind its length prefix,
  the call keeps all of it and reports no message. So after every call that returns the
  buffer holds at most its old size plus the arrived bytes.
\<close>

theorem recv_cap_before_append:
  "(0 < tcp_available (tcp s) \<and> 100000 < length (recvBuffer s) \<longrightarrow>
      readJsonMessage s = Inr (None, s\<lparr>recvBuffer := []\<rparr>))
   \<and> (tcp_available (tcp s) = 0 \<or> length (recvBuffer s) \<le> 100000 \<longrightarrow>
      readJsonMessage s =
        readJsonMessage (s\<lparr>recvBuffer := recvBuffer s @ rx (tcp s),
                           tcp := (tcp s)\<lparr>rx := []\<rparr>\<rparr>)
      \<and> (readJsonMessage s = Inr (r, s') \<longrightarrow>
           tcp s' = (tcp s)\<lparr>rx := []\<rparr>
           \<and> recvBuffer s' =
               drop (length (recvBuffer s @ rx (tcp s)) - length (recvBuffer s'))
                 (recvBuffer s @ rx (tcp s)))
      \<and> (recvBuffer s @ rx (tcp s) = []
           \<or> take 1 (recvBuffer s @ rx (tcp s)) = ''[''
           \<or> (CHR ''['' \<notin> set (recvBuffer s @ rx (tcp s))
               \<and> length (recvBuffer s @ rx (tcp s)) \<le> 1000)
           \<or> (recvBuffer s @ rx (tcp s) = ds @ CHR ''['' # rest
               \<and> list_all is_digit ds \<and> ds \<noteq> [] \<and> length ds \<le> 12
               \<and> decimal ds \<le> 1000000 \<and> length rest + 1 < decimal ds) \<longrightarrow>
           readJsonMessage s =
             Inr (None, s\<lparr>recvBuffer := recvBuffer s @ rx (tcp s),
                           tcp := (tcp s)\<lparr>rx := []\<rparr>\<rparr>)))
   \<and> (readJsonMessage s = Inr (r, s') \<longrightarrow>
        length (recvBuffer s') \<le> length (recvBuffer s) + tcp_available (tcp s)
        \<and> (0 < tcp_available (tcp s) \<and> 100000 < length (recvBuffer s)
             \<longrightarrow> r = None \<and> recvBuffer s' = []))"
proof -
  define B where "B = recvBuffer s @ rx (tcp s)"
  let ?s = "s\<lparr>recvBuffer := B, tcp := (tcp s)\<lparr>rx := []\<rparr>\<rparr>"
  have A: "0 < tcp_available (tcp s) \<and> 100000 < length (recvBuffer s) \<Longrightarrow>
      readJsonMessage s = Inr (None, s\<lparr>recvBuffer := []\<rparr>)"
    by (simp add: cap_reset)
  have F: "readJsonMessage s = readJsonMessage ?s"
    if "tcp_available (tcp s) = 0 \<or> length (recvBuffer s) \<le> 100000"
    unfolding B_def using that by (rule readJsonMessage_filled)
  have T: "tcp s' = (tcp s)\<lparr>rx := []\<rparr>
           \<and> recvBuffer s' = drop (length B - length (recvBuffer s')) B"
    if cap: "tcp_available (tcp s) = 0 \<or> length (recvBuffer s) \<le> 100000"
      and r: "readJsonMessage s = Inr (r, s')"
  proof -
    have "readJsonMessage ?s = Inr (r, s')" using F[OF cap] r by simp
    from parse_keeps_tail[OF _ this] show ?thesis by simp
  qed
  have K: "readJsonMessage s = Inr (None, ?s)"
    if cap: "tcp_available (tcp s) = 0 \<or> length (recvBuffer s) \<le> 100000"
      and k: "B = [] \<or> take 1 B = ''[''
           \<or> (CHR ''['' \<notin> set B \<and> length B \<le> 1000)
           \<or> (B = ds @ CHR ''['' # rest
               \<and> list_all is_digit ds \<and> ds \<noteq> [] \<and> length ds \<le> 12
               \<and> decimal ds \<le> 1000000 \<and> length rest + 1 < decimal ds)"
  proof -
    consider (e) "B = []" | (b) "B \<noteq> []" "take 1 B = ''[''"
      | (n) "B \<noteq> []" "CHR ''['' \<notin> set B \<and> length B \<le> 1000"
      | (i) "B = ds @ CHR ''['' # rest
               \<and> list_all is_digit ds \<and> ds \<noteq> [] \<and> length ds \<le> 12
               \<and> decimal ds \<le> 1000000 \<and> length rest + 1 < decimal ds"
      using k by blast
    then show ?thesis
    proof cases
      case e
      then show ?thesis unfolding F[OF cap]
        by (simp add: readJsonMessage_def tcp_available_def)
    next
      case b
      then obtain t where "B = CHR ''['' # t" by (cases B) auto
      then show ?thesis unfolding F[OF cap]
        by (simp add: readJsonMessage_def tcp_available_def find_char_0)
    next
      case n
      then have "index_of CHR ''['' B = None" by (simp add: index_of_None)
      then show ?thesis using n unfolding F[OF cap]
        by (simp add: readJsonMessage_def tcp_available_def find_char_0)
    next
      case i
      then show ?thesis
        using incomplete_frame_kept[OF cap, of ds rest] unfolding B_def by simp
    qed
  qed
  have C: "length (recvBuffer s') \<le> length (recvBuffer s) + tcp_available (tcp s)
        \<and> (0 < tcp_available (tcp s) \<and> 100000 < length (recvBuffer s)
             \<longrightarrow> r = None \<and> recvBuffer s' = [])"
    if r: "readJsonMessage s = Inr (r, s')"
  proof (cases "0 < tcp_available (tcp s) \<and> 100000 < length (recvBuffer s)")
    case True
    then show ?thesis using r A by auto
  next
    case False
    then have cap: "tcp_available (tcp s) = 0 \<or> length (recvBuffer s) \<le> 100000" by auto
    have "recvBuffer s' = drop (length B - length (recvBuffer s')) B"
      using T[OF cap r] by simp
    then have "length (recvBuffer s') \<le> length B"
      by (metis diff_le_self length_drop)
    then show ?thesis using False by (auto simp add: B_def tcp_available_def)
  qed
  show ?thesis
    using A F T K C unfolding B_def by blast
qed

theorem recv_cap_before_append_witness:
  "(0 < tcp_available (tcp (idle\<lparr>recvBuffer := replicate 100001 CHR ''x'',
                                  tcp := \<lparr>connected = True, rx = ''y'', tx = []\<rparr>\<rparr>))
    \<and> 100000 < length (replicate 100001 CHR ''x''))
   \<and> readJsonMessage (idle\<lparr>recvBuffer := replicate 100001 CHR ''x'',
                            tcp := \<lparr>connected = True, rx = ''y'', tx = []\<rparr>\<rparr>) =
       Inr (None, idle\<lparr>recvBuffer := [],
                       tcp := \<lparr>connected = True, rx = ''y'', tx = []\<rparr>\<rparr>)
   \<and> length (recvBuffer (idle\<lparr>recvBuffer := [],
                       tcp := \<lparr>connected = True, rx = ''y'', tx = []\<rparr>\<rparr>))
       \<le> length (replicate 100001 CHR ''x'') + 1
   \<and> readJsonMessage (idle\<lparr>recvBuffer := ''12[5,'',
                            tcp := \<lparr>connected = True, rx = ''{\"a\"'', tx = []\<rparr>\<rparr>) =
       Inr (None, idle\<lparr>recvBuffer := ''12[5,{\"a\"'',
                       tcp := \<lparr>connected = True, rx = [], tx = []\<rparr>\<rparr>)"
  using recv_cap_before_append[of
      "idle\<lparr>recvBuffer := replicate 100001 CHR ''x'',
            tcp := \<lparr>connected = True, rx = ''y'', tx = []\<rparr>\<rparr>"
      None
      "idle\<lparr>recvBuffer := [], tcp := \<lparr>connected = True, rx = ''y'', tx = []\<rparr>\<rparr>"]
    recv_cap_before_append[of
      "idle\<lparr>recvBuffer := ''12[5,'', tcp := \<lparr>connected = True, rx = ''{\"a\"'', tx = []\<rparr>\<rparr>"
      None
      "idle\<lparr>recvBuffer := ''12[5,{\"a\"'', tcp := \<lparr>connected = True, rx = [], tx = []\<rparr>\<rparr>"
      "''12''" "''5,{\"a\"''"]
  by (auto simp add: idle_def tcp_available_def is_digit_def decimal_def digit_value_def)

text \<open>
  C5 as stated fails: a buffer of exactly 100000 bytes that starts with \<^verbatim>\<open>[\<close> passes
  the test, one more byte is appended, and the call returns with 100001 bytes in the
  buffer.
\<close>

theorem recv_cap_exceeded:
  "readJsonMessage (idle\<lparr>recvBuffer := CHR ''['' # replicate 99999 CHR ''x'',
                         tcp := \<lparr>connected = True, rx = ''y'', tx = []\<rparr>\<rparr>) =
     Inr (None, idle\<lparr>recvBuffer := CHR ''['' # replicate 99999 CHR ''x'' @ ''y'',
                     tcp := \<lparr>connected = True, rx = [], tx = []\<rparr>\<rparr>)
   \<and> length (CHR ''['' # replicate 99999 CHR ''x'') = 100000
   \<and> length (CHR ''['' # replicate 99999 CHR ''x'' @ ''y'') = 100001"
  by (subst readJsonMessage_filled)
     (simp_all add: readJsonMessage_def idle_def tcp_available_def find_char_0)

section \<open>The transfer session\<close>

text \<open>
  With an open target and room in the buffer, \<^verbatim>\<open>bufferedWrite\<close> returns, and it
  changes nothing but the buffer, the file and the log.
\<close>

lemma file_write_open: "is_open (snd (file_write f buf)) = is_open f"
  by (simp add: file_write_def Let_def)

lemma flushWriteBuffer_frame:
  "\<exists>wb f tr. snd (flushWriteBuffer s) = s\<lparr>writeBuffer := wb, currentFile := f, trace := tr\<rparr>
     \<and> is_open f = is_open (currentFile s)
     \<and> (length wb = 0 \<or> wb = writeBuffer s)"
proof (cases "writeBufferPos s > 0 \<and> currentWriteFile s \<and> is_open (currentFile s)")
  case True
  obtain n f where w: "file_write (currentFile s) (writeBuffer s) = (n, f)"
    by (cases "file_write (currentFile s) (writeBuffer s)")
  then have "is_open f = is_open (currentFile s)"
    using file_write_open[of "currentFile s" "writeBuffer s"] by simp
  moreover have "snd (flushWriteBuffer s) =
      s\<lparr>writeBuffer := [], currentFile := f,
        trace := trace s @ [FileWrite (writeBufferPos s) n]\<rparr>"
    using True w by (simp add: flushWriteBuffer_def)
  ultimately show ?thesis by auto
next
  case False
  then have "snd (flushWriteBuffer s) = s" by (auto simp add: flushWriteBuffer_def)
  moreover have "s = s\<lparr>writeBuffer := writeBuffer s, currentFile := currentFile s, trace := trace s\<rparr>"
    by simp
  ultimately show ?thesis by metis
qed

lemma flushWriteBuffer_empties:
  "currentWriteFile s \<Longrightarrow> is_open (currentFile s) \<Longrightarrow>
   writeBuffer (snd (flushWriteBuffer s)) = []"
  by (cases "file_write (currentFile s) (writeBuffer s)")
     (auto simp add: flushWriteBuffer_def writeBufferPos_def)

lemma bufferedWrite_returns:
  assumes "currentWriteFile s" "is_open (currentFile s)" "writeBufferPos s < WRITE_BUFFER_SIZE"
  shows "\<exists>ok wb f tr.
           bufferedWrite data s = Some (ok, s\<lparr>writeBuffer := wb, currentFile := f, trace := tr\<rparr>)
           \<and> length wb < WRITE_BUFFER_SIZE \<and> is_open f"
  using assms
proof (induction "length data" arbitrary: data s rule: less_induct)
  case less
  show ?case
  proof (cases "length data > 0")
    case False
    then have "bufferedWrite data s = Some (True, s)" by (subst bufferedWrite.simps) simp
    moreover have "s = s\<lparr>writeBuffer := writeBuffer s, currentFile := currentFile s, trace := trace s\<rparr>"
      by simp
    ultimately show ?thesis using less.prems unfolding writeBufferPos_def by metis
  next
    case True
    define toCopy where "toCopy = min (WRITE_BUFFER_SIZE - writeBufferPos s) (length data)"
    define s1 where "s1 = s\<lparr>writeBuffer := writeBuffer s @ take toCopy data\<rparr>"
    have pos: "toCopy > 0" using True less.prems(3) by (simp add: toCopy_def)
    then have shorter: "length (drop toCopy data) < length data" using True by simp
    have len1: "writeBufferPos s1 = writeBufferPos s + toCopy"
      by (simp add: s1_def writeBufferPos_def toCopy_def)
    have le1: "writeBufferPos s1 \<le> WRITE_BUFFER_SIZE"
      using less.prems(3) by (simp add: len1 toCopy_def)
    have open1: "currentWriteFile s1" "is_open (currentFile s1)"
      using less.prems by (simp_all add: s1_def)
    show ?thesis
    proof (cases "writeBufferPos s1 \<ge> WRITE_BUFFER_SIZE")
      case False
      then have step: "bufferedWrite data s = bufferedWrite (drop toCopy data) s1"
        using True
        by (subst bufferedWrite.simps) (simp add: Let_def toCopy_def[symmetric] s1_def[symmetric])
      from False have "writeBufferPos s1 < WRITE_BUFFER_SIZE" by simp
      from less.hyps[OF shorter open1 this]
      obtain ok wb f tr where
        r: "bufferedWrite (drop toCopy data) s1 =
              Some (ok, s1\<lparr>writeBuffer := wb, currentFile := f, trace := tr\<rparr>)"
        and p: "length wb < WRITE_BUFFER_SIZE" "is_open f"
        by blast
      have "s1\<lparr>writeBuffer := wb, currentFile := f, trace := tr\<rparr> =
            s\<lparr>writeBuffer := wb, currentFile := f, trace := tr\<rparr>"
        by (simp add: s1_def)
      then show ?thesis using step r p by auto
    next
      case full: True
      obtain ok s2 where fl: "flushWriteBuffer s1 = (ok, s2)"
        by (cases "flushWriteBuffer s1")
      obtain wb2 f2 tr2 where
        s2: "s2 = s1\<lparr>writeBuffer := wb2, currentFile := f2, trace := tr2\<rparr>"
        and o2: "is_open f2"
        using flushWriteBuffer_frame[of s1] fl open1 by auto
      have e2: "writeBuffer s2 = []"
        using flushWriteBuffer_empties[OF open1] fl by simp
      then have wb2: "wb2 = []" using s2 by simp
      have s2': "s2 = s\<lparr>writeBuffer := [], currentFile := f2, trace := tr2\<rparr>"
        using s2 wb2 by (simp add: s1_def)
      show ?thesis
      proof (cases ok)
        case False
        then have "bufferedWrite data s = Some (False, s2)"
          using True full fl
          by (subst bufferedWrite.simps)
             (simp add: Let_def toCopy_def[symmetric] s1_def[symmetric])
        then show ?thesis using s2' o2
          by (intro exI[of _ False] exI[of _ "[]"] exI[of _ f2] exI[of _ tr2])
             (simp add: WRITE_BUFFER_SIZE_def)
      next
        case okT: True
        then have step: "bufferedWrite data s = bufferedWrite (drop toCopy data) s2"
          using True full fl
          by (subst bufferedWrite.simps)
             (simp add: Let_def toCopy_def[symmetric] s1_def[symmetric])
        have pre2: "currentWriteFile s2" "is_open (currentFile s2)"
            "writeBufferPos s2 < WRITE_BUFFER_SIZE"
          using s2' o2 less.prems by (simp_all add: writeBufferPos_def WRITE_BUFFER_SIZE_def)
        from less.hyps[OF shorter pre2]
        obtain ok' wb f tr where
          r: "bufferedWrite (drop toCopy data) s2 =
                Some (ok', s2\<lparr>writeBuffer := wb, currentFile := f, trace := tr\<rparr>)"
          and p: "length wb < WRITE_BUFFER_SIZE" "is_open f"
          by blast
        have "s2\<lparr>writeBuffer := wb, currentFile := f, trace := tr\<rparr> =
              s\<lparr>writeBuffer := wb, currentFile := f, trace := tr\<rparr>"
          by (simp add: s2')
        then show ?thesis using step r p by auto
      qed
    qed
  qed
qed

lemma drain_recvBuffer_inv:
  assumes "session_inv s" "inBinaryMode s"
  shows "\<exists>s'. drain_recvBuffer s = Some s' \<and> session_inv s' \<and> inBinaryMode s'
              \<and> currentFileSize s' = currentFileSize s"
proof (cases "recvBuffer s = []")
  case True
  then show ?thesis using assms by (simp add: drain_recvBuffer_def)
next
  case False
  define toWrite where "toWrite = min (length (recvBuffer s)) (binaryBytesRemaining s)"
  have pre: "currentWriteFile s" "is_open (currentFile s)" "writeBufferPos s < WRITE_BUFFER_SIZE"
    using assms by (simp_all add: session_inv_def)
  from bufferedWrite_returns[OF pre, of "take toWrite (recvBuffer s)"]
  obtain ok wb f tr where
    r: "bufferedWrite (take toWrite (recvBuffer s)) s =
          Some (ok, s\<lparr>writeBuffer := wb, currentFile := f, trace := tr\<rparr>)"
    and p: "length wb < WRITE_BUFFER_SIZE" "is_open f"
    by blast
  have le: "toWrite \<le> binaryBytesRemaining s" by (simp add: toWrite_def)
  show ?thesis
    using False r p le assms
    by (cases ok)
       (auto simp add: drain_recvBuffer_def Let_def toWrite_def[symmetric] session_inv_def
          writeBufferPos_def)
qed

lemma handleSendBook_session:
  "\<exists>s. handleSendBook d data s0 = Some s
       \<and> (\<not> inBinaryMode s0 \<and> inBinaryMode s \<longrightarrow> session_inv s)
       \<and> (extract_lpath data \<noteq> [] \<and> extract_length data \<noteq> 0
            \<longrightarrow> currentFileSize s = extract_length data)"
proof (cases "extract_lpath data = [] \<or> extract_length data = 0")
  case True
  then show ?thesis
    by (auto simp add: handleSendBook_def sendJsonResponse_def Let_def)
next
  case False
  define filename where "filename =
     (case rfind_char (extract_lpath data) CHR ''/'' of
        Some lastSlash \<Rightarrow> substr_from (extract_lpath data) (lastSlash + 1)
      | None \<Rightarrow> extract_lpath data)"
  define name where "name = ''/'' @ sanitizeFilename d filename"
  define s2 where "s2 = setStatus (''Receiving: '' @ filename) (setState RECEIVING
      (s0\<lparr>currentFilename := (if checkFileExtension d name ''.epub'' then name
                           else name @ ''.epub''),
          currentFileSize := extract_length data, bytesReceived := 0\<rparr>))"
  have h: "handleSendBook d data s0 =
     (case openFileForWrite (SdMan s2) (currentFilename s2) of
        None \<Rightarrow> Some (sendJsonResponse OpCode_ERROR
                           ''{\"message\":\"Failed to create file\"}''
                           (setError ''Failed to create file'' s2))
      | Some f \<Rightarrow> drain_recvBuffer
                    ((sendJsonResponse OK ''{}''
                        (s2\<lparr>currentFile := f, currentWriteFile := True, writeBuffer := []\<rparr>))
                       \<lparr>inBinaryMode := True, binaryBytesRemaining := extract_length data\<rparr>))"
    by (simp only: handleSendBook_def Let_def filename_def name_def s2_def False if_False)
  have nb: "inBinaryMode s2 = inBinaryMode s0" "currentFileSize s2 = extract_length data"
    by (simp_all add: s2_def setStatus_def setState_def)
  show ?thesis
  proof (cases "openFileForWrite (SdMan s2) (currentFilename s2)")
    case None
    then show ?thesis using h nb
      by (simp add: sendJsonResponse_def setError_def setState_def Let_def)
  next
    case (Some f)
    let ?s5 = "(sendJsonResponse OK ''{}''
                        (s2\<lparr>currentFile := f, currentWriteFile := True, writeBuffer := []\<rparr>))
                       \<lparr>inBinaryMode := True, binaryBytesRemaining := extract_length data\<rparr>"
    have "is_open f" using Some by (auto simp add: openFileForWrite_def split: if_splits)
    then have "session_inv ?s5" "inBinaryMode ?s5"
      by (simp_all add: session_inv_def sendJsonResponse_def Let_def s2_def setStatus_def
          setState_def writeBufferPos_def WRITE_BUFFER_SIZE_def)
    moreover have "currentFileSize ?s5 = extract_length data"
      using nb by (simp add: sendJsonResponse_def Let_def)
    ultimately show ?thesis using drain_recvBuffer_inv[of ?s5] h Some by auto
  qed
qed

lemma flushWriteBuffer_counters:
  "bytesReceived (snd (flushWriteBuffer s)) = bytesReceived s"
  "binaryBytesRemaining (snd (flushWriteBuffer s)) = binaryBytesRemaining s"
  "currentFileSize (snd (flushWriteBuffer s)) = currentFileSize s"
  "inBinaryMode (snd (flushWriteBuffer s)) = inBinaryMode s"
  by (cases "file_write (currentFile s) (writeBuffer s)";
      simp add: flushWriteBuffer_def)+

lemma abort_transfer_inv: "session_inv s \<Longrightarrow> session_inv (abort_transfer m s)"
  by (simp add: abort_transfer_def session_inv_def setError_def setState_def
      currentFile_close_def log_event_def flushWriteBuffer_counters)

lemma complete_transfer_inv: "session_inv s \<Longrightarrow> session_inv (complete_transfer s)"
  by (simp add: complete_transfer_def session_inv_def setStatus_def setState_def
      currentFile_close_def currentFile_flush_def log_event_def flushWriteBuffer_counters
      sendJsonResponse_def Let_def)

lemma receiveBinaryData_inv:
  assumes "session_inv s" "inBinaryMode s"
  shows "\<exists>s'. receiveBinaryData s = Some s' \<and> session_inv s'"
proof (cases "tcp_available (tcp s) = 0")
  case True
  then show ?thesis using assms abort_transfer_inv[of s]
    by (simp add: receiveBinaryData_def)
next
  case False
  define toRead where "toRead = min 4096 (binaryBytesRemaining s)"
  define bytes where "bytes = take toRead (rx (tcp s))"
  define s1 where "s1 = s\<lparr>tcp := (tcp s)\<lparr>rx := drop toRead (rx (tcp s))\<rparr>\<rparr>"
  have inv1: "session_inv s1" "inBinaryMode s1"
    using assms by (simp_all add: s1_def session_inv_def writeBufferPos_def)
  have le: "length bytes \<le> binaryBytesRemaining s" by (simp add: bytes_def toRead_def)
  have h: "receiveBinaryData s =
     (if length bytes > 0 then
        (case bufferedWrite bytes s1 of
           None \<Rightarrow> None
         | Some (ok, s2) \<Rightarrow>
             if ok then
               (let s3 = s2\<lparr>bytesReceived := bytesReceived s2 + length bytes,
                            binaryBytesRemaining := binaryBytesRemaining s2 - length bytes,
                            updateRequired := True\<rparr>
                in if binaryBytesRemaining s3 = 0 then Some (complete_transfer s3)
                   else Some s3)
             else Some (abort_transfer ''Write error'' s2))
      else Some s1)"
    unfolding receiveBinaryData_def Let_def tcp_read_def fst_conv snd_conv toRead_def
      bytes_def s1_def
    using False by simp
  show ?thesis
  proof (cases "length bytes > 0")
    case False
    then show ?thesis using h inv1 by simp
  next
    case True
    have pre: "currentWriteFile s1" "is_open (currentFile s1)"
        "writeBufferPos s1 < WRITE_BUFFER_SIZE"
      using inv1 by (simp_all add: session_inv_def)
    from bufferedWrite_returns[OF pre, of bytes]
    obtain ok wb f tr where
      r: "bufferedWrite bytes s1 =
            Some (ok, s1\<lparr>writeBuffer := wb, currentFile := f, trace := tr\<rparr>)"
      and p: "length wb < WRITE_BUFFER_SIZE" "is_open f"
      by blast
    let ?s2 = "s1\<lparr>writeBuffer := wb, currentFile := f, trace := tr\<rparr>"
    have inv2: "session_inv ?s2"
      using inv1 p by (simp add: session_inv_def writeBufferPos_def)
    show ?thesis
    proof (cases ok)
      case False
      then show ?thesis using h True r abort_transfer_inv[OF inv2] by simp
    next
      case okT: True
      define s3 where "s3 = ?s2\<lparr>bytesReceived := bytesReceived ?s2 + length bytes,
                     binaryBytesRemaining := binaryBytesRemaining ?s2 - length bytes,
                     updateRequired := True\<rparr>"
      have "binaryBytesRemaining ?s2 = binaryBytesRemaining s" by (simp add: s1_def)
      then have inv3: "session_inv s3"
        using inv2 le by (simp add: s3_def session_inv_def writeBufferPos_def)
      have "receiveBinaryData s =
          (if binaryBytesRemaining s3 = 0 then Some (complete_transfer s3) else Some s3)"
        unfolding h r s3_def Let_def using True okT by simp
      then show ?thesis
        using inv3 complete_transfer_inv[OF inv3] by simp
    qed
  qed
qed

lemma session_state_inv: "session_state s \<Longrightarrow> session_inv s"
proof (induction rule: session_state.induct)
  case (created s0 d data s)
  then show ?case using handleSendBook_session[of d data s0] by auto
next
  case (network s arrived c)
  then show ?case by (simp add: session_inv_def writeBufferPos_def)
next
  case (received s s')
  then show ?case using receiveBinaryData_inv[of s] by auto
qed

lemmas eval_defs =
  handleSendBook_def drain_recvBuffer_def extract_lpath_def extract_length_def
  scan_length.simps length_at_def substr_def substr_from_def find_str_def find_char_def
  rfind_char_def skip_blanks.simps skip_digits.simps is_digit_def strtoul_def scan_number_def
  isspace_def decimal_def digit_value_def ULONG_MAX_def Let_def
  openFileForWrite_def setState_def setStatus_def setError_def sendJsonResponse_def
  to_string.simps OpCode_defs bufferedWrite.simps flushWriteBuffer_def file_write_def
  writeBufferPos_def WRITE_BUFFER_SIZE_def

lemma pipelined_session_created:
  "handleSendBook d ''{\"lpath\":\"a.epub\",\"length\":3}'' (idle\<lparr>recvBuffer := ''abc''\<rparr>)
     = Some (pipelined_session d)"
  by (simp add: eval_defs idle_def pipelined_session_def)

lemma short_drain_session_created:
  "handleSendBook d ''{\"lpath\":\"a.epub\",\"length\":5000}''
       (idle_full_card\<lparr>recvBuffer := replicate 4096 CHR ''x''\<rparr>)
     = Some (short_drain_session d)"
  by (simp add: eval_defs idle_def idle_full_card_def short_drain_session_def)

lemma full_card_session_created:
  "handleSendBook d ''{\"lpath\":\"a.epub\",\"length\":3}'' idle_full_card
     = Some (full_card_session d)"
  by (simp add: eval_defs idle_def idle_full_card_def full_card_session_def)

text \<open>
  C7. In every state of a transfer session \<^verbatim>\<open>bytesReceived\<close> is at most
  \<^verbatim>\<open>currentFileSize\<close>: the drain in \<^verbatim>\<open>handleSendBook\<close> and every call of
  \<^verbatim>\<open>receiveBinaryData\<close> take at most the outstanding bytes. While binary mode is on,
  \<^verbatim>\<open>receiveBinaryData\<close> returns, and the bound holds again in the state it returns.
\<close>

theorem bytesReceived_bounded:
  assumes "session_state s"
  shows "bytesReceived s \<le> currentFileSize s
       \<and> bytesReceived s + binaryBytesRemaining s = currentFileSize s
       \<and> (inBinaryMode s \<longrightarrow>
            (\<exists>s'. receiveBinaryData s = Some s' \<and> bytesReceived s' \<le> currentFileSize s'))"
proof -
  have inv: "session_inv s" using assms by (rule session_state_inv)
  then have "bytesReceived s + binaryBytesRemaining s = currentFileSize s"
    by (simp add: session_inv_def)
  moreover have "inBinaryMode s \<longrightarrow>
      (\<exists>s'. receiveBinaryData s = Some s' \<and> bytesReceived s' \<le> currentFileSize s')"
    using receiveBinaryData_inv[OF inv] by (auto simp add: session_inv_def)
  ultimately show ?thesis by simp
qed

lemma pipelined_session_state: "session_state (pipelined_session example_deps)"
proof -
  have a: "\<not> inBinaryMode (idle\<lparr>recvBuffer := ''abc''\<rparr>)" by (simp add: idle_def)
  have b: "inBinaryMode (pipelined_session example_deps)"
    by (simp add: pipelined_session_def)
  show ?thesis
    by (rule session_state.created[OF a pipelined_session_created[of example_deps] b])
qed

theorem bytesReceived_bounded_witness:
  "session_state (pipelined_session example_deps)
   \<and> inBinaryMode (pipelined_session example_deps)
   \<and> bytesReceived (pipelined_session example_deps)
        \<le> currentFileSize (pipelined_session example_deps)
   \<and> (\<exists>s'. receiveBinaryData (pipelined_session example_deps) = Some s'
            \<and> bytesReceived s' \<le> currentFileSize s')"
  using bytesReceived_bounded[OF pipelined_session_state] pipelined_session_state
  by (simp add: pipelined_session_def)

text \<open>
  C2 fails on the code. \<^verbatim>\<open>SEND_BOOK\<close> declares 3 bytes and the 3 bytes are already in
  \<^verbatim>\<open>recvBuffer\<close>: the drain takes them, so \<^verbatim>\<open>bytesReceived\<close> equals the declared
  size, but the drain has no completion step. The bytes stay in the write buffer, the
  file stays open with nothing written, only the first acknowledgement was sent, the
  state stays \<^verbatim>\<open>RECEIVING\<close>; and \<^verbatim>\<open>receiveBinaryData\<close> changes nothing, with or
  without further bytes on the socket.
\<close>

theorem pipelined_transfer_never_completes:
  "handleSendBook d ''{\"lpath\":\"a.epub\",\"length\":3}'' (idle\<lparr>recvBuffer := ''abc''\<rparr>)
     = Some (pipelined_session d)
   \<and> bytesReceived (pipelined_session d) = currentFileSize (pipelined_session d)
   \<and> state (pipelined_session d) = RECEIVING
   \<and> inBinaryMode (pipelined_session d)
   \<and> is_open (currentFile (pipelined_session d))
   \<and> written (currentFile (pipelined_session d)) = []
   \<and> tx (tcp (pipelined_session d)) = [''6[0,{}]'']
   \<and> receiveBinaryData (pipelined_session d) = Some (pipelined_session d)
   \<and> receiveBinaryData
        ((pipelined_session d)\<lparr>tcp := \<lparr>connected = True, rx = ''x'', tx = [''6[0,{}]'']\<rparr>\<rparr>)
      = Some ((pipelined_session d)
                \<lparr>tcp := \<lparr>connected = True, rx = ''x'', tx = [''6[0,{}]'']\<rparr>\<rparr>)"
proof -
  have "receiveBinaryData (pipelined_session d) = Some (pipelined_session d)"
    by (simp add: receiveBinaryData_def pipelined_session_def idle_def tcp_available_def)
  moreover have "receiveBinaryData
        ((pipelined_session d)\<lparr>tcp := \<lparr>connected = True, rx = ''x'', tx = [''6[0,{}]'']\<rparr>\<rparr>)
      = Some ((pipelined_session d)
                \<lparr>tcp := \<lparr>connected = True, rx = ''x'', tx = [''6[0,{}]'']\<rparr>\<rparr>)"
    by (simp add: receiveBinaryData_def pipelined_session_def idle_def tcp_available_def
        tcp_read_def Let_def)
  ultimately show ?thesis
    using pipelined_session_created[of d] by (simp add: pipelined_session_def idle_def)
qed

text \<open>
  C3 fails on the code. With a full card every write is short. In the drain of
  \<^verbatim>\<open>handleSendBook\<close> (5000 bytes declared, 4096 already in \<^verbatim>\<open>recvBuffer\<close>) the flush
  of the full buffer writes 0 of 4096 bytes and \<^verbatim>\<open>bufferedWrite\<close> returns
  \<^verbatim>\<open>false\<close>, which the drain ignores: the state stays \<^verbatim>\<open>RECEIVING\<close>, the file stays
  open and no error is set. And the flush at the end of a transfer (3 bytes declared,
  3 read from the socket) writes 0 of 3 bytes and its result is dropped: the transfer
  is acknowledged and the state is \<^verbatim>\<open>WAITING\<close>.
\<close>

theorem short_write_not_fatal:
  "handleSendBook d ''{\"lpath\":\"a.epub\",\"length\":5000}''
       (idle_full_card\<lparr>recvBuffer := replicate 4096 CHR ''x''\<rparr>)
     = Some (short_drain_session d)
   \<and> trace (short_drain_session d)
       = [MutexTake stateMutex, MutexGive stateMutex, FileWrite 4096 0]
   \<and> state (short_drain_session d) = RECEIVING
   \<and> errorMessage (short_drain_session d) = []
   \<and> inBinaryMode (short_drain_session d)
   \<and> is_open (currentFile (short_drain_session d))
   \<and> handleSendBook d ''{\"lpath\":\"a.epub\",\"length\":3}'' idle_full_card
     = Some (full_card_session d)
   \<and> receiveBinaryData
        ((full_card_session d)\<lparr>tcp := \<lparr>connected = True, rx = ''abc'', tx = [''6[0,{}]'']\<rparr>\<rparr>)
     = Some ((full_card_session d)
               \<lparr>state := WAITING,
                statusMessage := ''Received: '' @ currentFilename (full_card_session d)
                                   @ ''\<newline>Waiting for more...'',
                bytesReceived := 3, binaryBytesRemaining := 0, inBinaryMode := False,
                currentWriteFile := False,
                currentFile := \<lparr>is_open = False, written = [], room = 0\<rparr>,
                tcp := \<lparr>connected = True, rx = [], tx = [''6[0,{}]'', ''6[0,{}]'']\<rparr>,
                trace := [MutexTake stateMutex, MutexGive stateMutex, FileWrite 3 0,
                          FileFlush, FileClose, MutexTake stateMutex,
                          MutexGive stateMutex]\<rparr>)"
proof -
  have "receiveBinaryData
        ((full_card_session d)\<lparr>tcp := \<lparr>connected = True, rx = ''abc'', tx = [''6[0,{}]'']\<rparr>\<rparr>)
     = Some ((full_card_session d)
               \<lparr>state := WAITING,
                statusMessage := ''Received: '' @ currentFilename (full_card_session d)
                                   @ ''\<newline>Waiting for more...'',
                bytesReceived := 3, binaryBytesRemaining := 0, inBinaryMode := False,
                currentWriteFile := False,
                currentFile := \<lparr>is_open = False, written = [], room = 0\<rparr>,
                tcp := \<lparr>connected = True, rx = [], tx = [''6[0,{}]'', ''6[0,{}]'']\<rparr>,
                trace := [MutexTake stateMutex, MutexGive stateMutex, FileWrite 3 0,
                          FileFlush, FileClose, MutexTake stateMutex,
                          MutexGive stateMutex]\<rparr>)"
    by (simp add: receiveBinaryData_def full_card_session_def idle_def idle_full_card_def
        tcp_available_def tcp_read_def Let_def complete_transfer_def currentFile_close_def
        currentFile_flush_def log_event_def eval_defs)
  then show ?thesis
    using short_drain_session_created[of d] full_card_session_created[of d]
    by (simp add: short_drain_session_def idle_full_card_def idle_def)
qed

section \<open>The declared length\<close>

















section \<open>Discovery\<close>

lemmas discovery_defs =
  listenForDiscovery_def parse_discovery_def parse_main_port_def parse_alt_port_def
  parse_hostname_def connect_to_calibre_def find_char_def find_str_def substr_def
  substr_from_def stoi_def scan_number_def isspace_def is_digit_def decimal_def
  digit_value_def INT_MAX_def INT_MIN_def uint16_of_int_def Let_def
  setState_def setStatus_def log_event_def UDP_PORTS_def

text \<open>
  C6 fails on the code. The reply \<^verbatim>\<open>foo;abc\<close> has a semicolon and the port text
  \<^verbatim>\<open>abc\<close>: \<^verbatim>\<open>std::stoi\<close> throws \<^verbatim>\<open>std::invalid_argument\<close>, and nothing catches it.
  Only the empty port text is skipped: the reply \<^verbatim>\<open>foo;\<close> leaves the state
  \<^verbatim>\<open>DISCOVERING\<close>, the port 0 and no connection attempt.
\<close>

theorem discovery_port_not_numeric_throws:
  "listenForDiscovery
     \<lparr>reply = Some \<lparr>payload = ''foo;abc'', remoteIP = ip\<rparr>, connect_ok = c\<rparr>
     (onEnter (constructed sd)) = Inl invalid_argument
   \<and> listenForDiscovery
     \<lparr>reply = Some \<lparr>payload = ''foo;'', remoteIP = ip\<rparr>, connect_ok = c\<rparr>
     (onEnter (constructed sd)) =
       Inr ((onEnter (constructed sd))
              \<lparr>calibreHost := ip, calibreHostname := ip,
               trace := trace (onEnter (constructed sd))
                        @ map (\<lambda>port. UdpBroadcast port ''hello'') UDP_PORTS
                        @ replicate 10 (TaskDelay 50)\<rparr>)"
  by (simp add: discovery_defs onEnter_def constructed_def)

section \<open>Teardown\<close>

lemma close_network_fields:
  "currentFile (close_network s) = currentFile s"
  "currentWriteFile (close_network s) = currentWriteFile s"
  "writeBuffer (close_network s) = writeBuffer s"
  by (simp_all add: close_network_def tcp_stop_def log_event_def Let_def)

lemma close_network_trace:
  "\<exists>pre. trace (close_network s) = trace s @ pre \<and> \<not> list_ex is_TaskDelete pre"
  by (simp add: close_network_def tcp_stop_def log_event_def Let_def is_TaskDelete_def)

lemma flushWriteBuffer_trace:
  "\<exists>pre. trace (snd (flushWriteBuffer s)) = trace s @ pre \<and> \<not> list_ex is_TaskDelete pre"
  by (cases "file_write (currentFile s) (writeBuffer s)")
     (simp add: flushWriteBuffer_def is_TaskDelete_def)

lemma take_min_length: "take (min (length xs) n) xs = take n xs"
  by (cases "length xs \<le> n") (simp_all add: min_def)

lemma flushWriteBuffer_file:
  "is_open (currentFile (snd (flushWriteBuffer s))) = is_open (currentFile s)"
  "currentWriteFile s \<Longrightarrow> is_open (currentFile s) \<Longrightarrow>
     writeBuffer (snd (flushWriteBuffer s)) = [] \<and>
     written (currentFile (snd (flushWriteBuffer s))) =
       written (currentFile s) @ take (room (currentFile s)) (writeBuffer s)"
  by (auto simp add: flushWriteBuffer_def writeBufferPos_def file_write_def Let_def
      take_min_length)

lemma release_transfer_file_closed:
  "\<not> is_open (currentFile (release_transfer_file s))"
  "\<not> currentWriteFile (release_transfer_file s)"
  by (simp_all add: release_transfer_file_def Let_def currentFile_close_def
      currentFile_flush_def log_event_def)

lemma release_transfer_file_flushed:
  "currentWriteFile s \<Longrightarrow> is_open (currentFile s) \<Longrightarrow>
     writeBuffer (release_transfer_file s) = [] \<and>
     written (currentFile (release_transfer_file s)) =
       written (currentFile s) @ take (room (currentFile s)) (writeBuffer s)"
  using flushWriteBuffer_file[of s]
  by (simp add: release_transfer_file_def Let_def currentFile_close_def
      currentFile_flush_def log_event_def)

lemma release_transfer_file_trace:
  assumes "is_open (currentFile s)"
  shows "\<exists>pre. trace (release_transfer_file s) = trace s @ pre @ [FileFlush, FileClose]
           \<and> \<not> list_ex is_TaskDelete pre"
proof -
  obtain pre where p: "trace (snd (flushWriteBuffer s)) = trace s @ pre"
      "\<not> list_ex is_TaskDelete pre"
    using flushWriteBuffer_trace[of s] by blast
  have "trace (release_transfer_file s) = trace (snd (flushWriteBuffer s)) @ [FileFlush, FileClose]"
    using assms flushWriteBuffer_file(1)[of s]
    by (simp add: release_transfer_file_def Let_def currentFile_close_def
      currentFile_flush_def log_event_def)
  then show ?thesis using p by auto
qed

lemma terminate_tasks_fields:
  "currentFile (terminate_tasks env s) = currentFile s"
  "currentWriteFile (terminate_tasks env s) = currentWriteFile s"
  "writeBuffer (terminate_tasks env s) = writeBuffer s"
  by (simp_all add: terminate_tasks_def log_event_def Let_def)

lemma terminate_tasks_trace: "\<exists>post. trace (terminate_tasks env s) = trace s @ post"
  by (simp add: terminate_tasks_def log_event_def Let_def)

lemma delete_mutexes_fields:
  "currentFile (delete_mutexes s) = currentFile s"
  "currentWriteFile (delete_mutexes s) = currentWriteFile s"
  "writeBuffer (delete_mutexes s) = writeBuffer s"
  by (simp_all add: delete_mutexes_def log_event_def Let_def)

lemma delete_mutexes_trace: "\<exists>post. trace (delete_mutexes s) = trace s @ post"
  by (simp add: delete_mutexes_def log_event_def Let_def)

text \<open>
  C9. After \<^verbatim>\<open>onExit\<close> the transfer file is not open and \<^verbatim>\<open>currentWriteFile\<close> is
  null. If the file was open, it is flushed and closed in the teardown, and no task is
  deleted by force before that; if it was the write target, the write buffer is empty
  afterwards and its bytes were handed to the card (which keeps as many as it has room
  for). During a transfer session in binary mode the file is open and is the write
  target.
\<close>

theorem teardown_closes_transfer_file:
  "\<not> is_open (currentFile (onExit env s))
   \<and> \<not> currentWriteFile (onExit env s)
   \<and> (is_open (currentFile s) \<longrightarrow>
        (\<exists>pre post. trace (onExit env s) = trace s @ pre @ [FileFlush, FileClose] @ post
                     \<and> \<not> list_ex is_TaskDelete pre))
   \<and> (is_open (currentFile s) \<and> currentWriteFile s \<longrightarrow>
        writeBuffer (onExit env s) = []
        \<and> written (currentFile (onExit env s)) =
            written (currentFile s) @ take (room (currentFile s)) (writeBuffer s))
   \<and> (session_state s \<and> inBinaryMode s \<longrightarrow>
        is_open (currentFile s) \<and> currentWriteFile s)"
proof -
  define s1 where "s1 = close_network (s\<lparr>shouldStop := True\<rparr>)"
  define s2 where "s2 = release_transfer_file s1"
  define s3 where "s3 = terminate_tasks env s2"
  have ex: "onExit env s = delete_mutexes s3" by (simp add: onExit_def s1_def s2_def s3_def)
  obtain pre1 where t1: "trace s1 = trace s @ pre1" and n1: "\<not> list_ex is_TaskDelete pre1"
    using close_network_trace[of "s\<lparr>shouldStop := True\<rparr>"] unfolding s1_def by auto
  obtain post3 where t3: "trace s3 = trace s2 @ post3"
    using terminate_tasks_trace[of env s2] unfolding s3_def by blast
  obtain post4 where t4: "trace (onExit env s) = trace s3 @ post4"
    using delete_mutexes_trace[of s3] unfolding ex by blast
  have f1: "currentFile s1 = currentFile s" "currentWriteFile s1 = currentWriteFile s"
      "writeBuffer s1 = writeBuffer s"
    by (simp_all add: s1_def close_network_fields)
  have f4: "currentFile (onExit env s) = currentFile s2"
      "currentWriteFile (onExit env s) = currentWriteFile s2"
      "writeBuffer (onExit env s) = writeBuffer s2"
    by (simp_all add: ex s3_def delete_mutexes_fields terminate_tasks_fields)
  have closed: "\<not> is_open (currentFile (onExit env s))" "\<not> currentWriteFile (onExit env s)"
    using release_transfer_file_closed[of s1] by (simp_all add: f4 s2_def)
  have order: "\<exists>pre post. trace (onExit env s) = trace s @ pre @ [FileFlush, FileClose] @ post
                     \<and> \<not> list_ex is_TaskDelete pre" if "is_open (currentFile s)"
  proof -
    have "is_open (currentFile s1)" using that f1 by simp
    from release_transfer_file_trace[OF this]
    obtain pre2 where "trace s2 = trace s1 @ pre2 @ [FileFlush, FileClose]"
        "\<not> list_ex is_TaskDelete pre2"
      unfolding s2_def by blast
    then have "trace (onExit env s) = trace s @ (pre1 @ pre2) @ [FileFlush, FileClose] @ (post3 @ post4)"
        "\<not> list_ex is_TaskDelete (pre1 @ pre2)"
      using n1 by (simp_all add: t4 t3 t1)
    then show ?thesis by blast
  qed
  have flushed: "writeBuffer (onExit env s) = []
        \<and> written (currentFile (onExit env s)) =
            written (currentFile s) @ take (room (currentFile s)) (writeBuffer s)"
    if "is_open (currentFile s) \<and> currentWriteFile s"
    using release_transfer_file_flushed[of s1] that by (simp add: f4 f1 s2_def)
  have session: "is_open (currentFile s) \<and> currentWriteFile s"
    if "session_state s \<and> inBinaryMode s"
    using session_state_inv[of s] that by (simp add: session_inv_def)
  show ?thesis using closed order flushed session by blast
qed

theorem teardown_closes_transfer_file_witness:
  "(session_state (pipelined_session example_deps)
    \<and> inBinaryMode (pipelined_session example_deps)
    \<and> is_open (currentFile (pipelined_session example_deps))
    \<and> currentWriteFile (pipelined_session example_deps))
   \<and> \<not> is_open (currentFile (onExit example_teardown (pipelined_session example_deps)))
   \<and> written (currentFile (onExit example_teardown (pipelined_session example_deps))) = ''abc''
   \<and> trace (onExit example_teardown (pipelined_session example_deps)) =
       [MutexTake stateMutex, MutexGive stateMutex,
        UdpStop, TcpStop, FileWrite 3 3, FileFlush, FileClose, TaskDelay 200,
        TaskDelete CalNetworkTask, TaskDelay 50, WiFiDisconnect, TaskDelay 30, WiFiModeOff,
        TaskDelay 30, MutexTake renderingMutex, TaskDelete CalDisplayTask,
        MutexGive renderingMutex, MutexDelete renderingMutex, MutexDelete stateMutex]"
  using teardown_closes_transfer_file[of example_teardown "pipelined_session example_deps"]
    pipelined_session_state
  by (simp add: onExit_def close_network_def release_transfer_file_def terminate_tasks_def
      delete_mutexes_def tcp_stop_def log_event_def flushWriteBuffer_def file_write_def
      currentFile_close_def currentFile_flush_def writeBufferPos_def Let_def
      pipelined_session_def idle_def example_teardown_def)

section \<open>Dispatch\<close>

lemma find_in_set: "find P xs = Some x \<Longrightarrow> x \<in> set xs"
  by (induction xs) (auto split: if_splits)

lemma getSDCardFreeSpace_values:
  "getSDCardFreeSpace s \<in> set (64 * 1024 * 1024 # probeSizes)"
proof (cases "find (\<lambda>probe. probe \<le> prealloc_limit (SdMan s)) probeSizes")
  case None
  then show ?thesis by (simp add: getSDCardFreeSpace_def probeSizes_def)
next
  case (Some a)
  then have "a \<in> set probeSizes" by (rule find_in_set)
  then show ?thesis using Some by (auto simp add: getSDCardFreeSpace_def probeSizes_def)
qed

lemma probe_digits_all:
  "list_all (\<lambda>n. length (to_string n) \<le> 12) (64 * 1024 * 1024 # probeSizes)"
  by (simp add: probeSizes_def to_string.simps)

lemma probe_digits: "n \<in> set (64 * 1024 * 1024 # probeSizes) \<Longrightarrow> length (to_string n) \<le> 12"
  using probe_digits_all unfolding list_all_iff by blast

text \<open>
  C10. \<^verbatim>\<open>TOTAL_SPACE\<close> is dispatched as \<^verbatim>\<open>FREE_SPACE\<close> is: for every payload and
  state both run \<^verbatim>\<open>handleFreeSpace\<close>, which probes the card and answers \<^verbatim>\<open>OK\<close> with
  \<^verbatim>\<open>{"free_space_on_device":N}\<close>.
\<close>

theorem total_space_is_free_space:
  "handleCommand d TOTAL_SPACE data s = handleCommand d FREE_SPACE data s
   \<and> handleCommand d FREE_SPACE data s =
       Some (sendJsonResponse OK
               (''{\"free_space_on_device\":'' @ to_string (getSDCardFreeSpace s) @ ''}'') s)"
  using probe_digits[OF getSDCardFreeSpace_values[of s]]
  by (simp add: handleCommand_def handleFreeSpace_def OpCode_defs Let_def)

theorem total_space_is_free_space_witness:
  "handleCommand example_deps TOTAL_SPACE ''{}'' idle =
     Some (idle\<lparr>tcp := \<lparr>connected = True, rx = [],
                          tx = [''37[0,{\"free_space_on_device\":67108864}]'']\<rparr>\<rparr>)
   \<and> handleCommand example_deps FREE_SPACE ''{}'' idle =
     Some (idle\<lparr>tcp := \<lparr>connected = True, rx = [],
                          tx = [''37[0,{\"free_space_on_device\":67108864}]'']\<rparr>\<rparr>)"
  using total_space_is_free_space[of example_deps "''{}''" idle]
  by (simp add: sendJsonResponse_def getSDCardFreeSpace_def probeSizes_def idle_def
      to_string.simps OpCode_defs Let_def)

end
